theory Spec2Isabelle
  imports Complex_Main
begin

section \<open>Core/BoundingRectangle.js\<close>

text \<open>
  A JavaScript value that may be \<^verbatim>\<open>undefined\<close> is an \<open>option\<close>: \<open>None\<close> is
  \<^verbatim>\<open>undefined\<close>. Every \<^verbatim>\<open>throw new DeveloperError(msg)\<close> is the result
  \<open>Inl (DeveloperError msg)\<close>.
\<close>

datatype error = DeveloperError string

text \<open>
  Modelled from the spec: \<^verbatim>\<open>Core/defaultValue.js\<close> is not among the sources. The spec
  writes the call \<^verbatim>\<open>defaultValue(a, b)\<close> as \<^verbatim>\<open>a ?? b\<close>: the first argument when it is
  defined, the second otherwise.
\<close>

definition defaultValue :: "'a option \<Rightarrow> 'a \<Rightarrow> 'a" where
  "defaultValue a b = (case a of Some v \<Rightarrow> v | None \<Rightarrow> b)"

subsection \<open>Numbers\<close>

text \<open>
  A JavaScript number is \<^verbatim>\<open>NaN\<close>, one of the two infinities, or finite. The operators
  below are those the source applies to numbers, with their behaviour on \<^verbatim>\<open>NaN\<close> and the
  infinities: a comparison with \<^verbatim>\<open>NaN\<close> is false, \<^verbatim>\<open>NaN === NaN\<close> is false, an operation
  on \<^verbatim>\<open>NaN\<close> is \<^verbatim>\<open>NaN\<close>, and so are \<^verbatim>\<open>Infinity - Infinity\<close> and
  \<^verbatim>\<open>Infinity + (-Infinity)\<close>. On finite numbers the arithmetic is that of the reals:
  rounding, overflow to an infinity and the sign of zero are outside the model.
\<close>

datatype number = NaN | NegativeInfinity | Finite real | Infinity

text \<open>\<^verbatim>\<open>a < b\<close>.\<close>

fun less_js :: "number \<Rightarrow> number \<Rightarrow> bool" where
  "less_js NaN b = False"
| "less_js a NaN = False"
| "less_js Infinity b = False"
| "less_js a NegativeInfinity = False"
| "less_js NegativeInfinity b = True"
| "less_js a Infinity = True"
| "less_js (Finite a) (Finite b) = (a < b)"

text \<open>\<^verbatim>\<open>a > b\<close>.\<close>

definition greater_js :: "number \<Rightarrow> number \<Rightarrow> bool" where
  "greater_js a b = less_js b a"

text \<open>\<^verbatim>\<open>a <= b\<close>, which no function of the source uses: it says what a minimum is.\<close>

definition lessEq_js :: "number \<Rightarrow> number \<Rightarrow> bool" where
  "lessEq_js a b = (a \<noteq> NaN \<and> b \<noteq> NaN \<and> (a = b \<or> less_js a b))"

text \<open>\<^verbatim>\<open>a === b\<close> on numbers.\<close>

definition strictEquals :: "number \<Rightarrow> number \<Rightarrow> bool" where
  "strictEquals a b = (a \<noteq> NaN \<and> b \<noteq> NaN \<and> a = b)"

text \<open>\<^verbatim>\<open>a + b\<close>.\<close>

fun plus_js :: "number \<Rightarrow> number \<Rightarrow> number" where
  "plus_js NaN b = NaN"
| "plus_js a NaN = NaN"
| "plus_js Infinity NegativeInfinity = NaN"
| "plus_js NegativeInfinity Infinity = NaN"
| "plus_js Infinity b = Infinity"
| "plus_js a Infinity = Infinity"
| "plus_js NegativeInfinity b = NegativeInfinity"
| "plus_js a NegativeInfinity = NegativeInfinity"
| "plus_js (Finite a) (Finite b) = Finite (a + b)"

text \<open>\<^verbatim>\<open>a - b\<close>.\<close>

fun minus_js :: "number \<Rightarrow> number \<Rightarrow> number" where
  "minus_js NaN b = NaN"
| "minus_js a NaN = NaN"
| "minus_js Infinity Infinity = NaN"
| "minus_js NegativeInfinity NegativeInfinity = NaN"
| "minus_js Infinity b = Infinity"
| "minus_js a NegativeInfinity = Infinity"
| "minus_js NegativeInfinity b = NegativeInfinity"
| "minus_js a Infinity = NegativeInfinity"
| "minus_js (Finite a) (Finite b) = Finite (a - b)"

text \<open>\<^verbatim>\<open>Math.min(a, b)\<close> and \<^verbatim>\<open>Math.max(a, b)\<close>: \<^verbatim>\<open>NaN\<close> when an argument is.\<close>

definition Math_min :: "number \<Rightarrow> number \<Rightarrow> number" where
  "Math_min a b = (if a = NaN \<or> b = NaN then NaN else if less_js b a then b else a)"

definition Math_max :: "number \<Rightarrow> number \<Rightarrow> number" where
  "Math_max a b = (if a = NaN \<or> b = NaN then NaN else if less_js a b then b else a)"

text \<open>\<^verbatim>\<open>isFinite(a)\<close>.\<close>

fun isFinite :: "number \<Rightarrow> bool" where
  "isFinite (Finite a) = True"
| "isFinite a = False"

subsection \<open>Points and rectangles\<close>

text \<open>A point of the list given to \<^verbatim>\<open>fromPoints\<close>: an object with \<^verbatim>\<open>x\<close> and \<^verbatim>\<open>y\<close>.\<close>

record cartesian2 =
  x :: number
  y :: number

record boundingRectangle =
  x :: number
  y :: number
  width :: number
  height :: number

text \<open>The constructor (lines 31-59): every argument is optional and defaults to \<open>0.0\<close>.\<close>

definition BoundingRectangle ::
  "number option \<Rightarrow> number option \<Rightarrow> number option \<Rightarrow> number option \<Rightarrow> boundingRectangle" where
  "BoundingRectangle xa ya w h =
     \<lparr>boundingRectangle.x = defaultValue xa (Finite 0), y = defaultValue ya (Finite 0),
      width = defaultValue w (Finite 0), height = defaultValue h (Finite 0)\<rparr>"

text \<open>
  \<^verbatim>\<open>BoundingRectangle.union\<close> (lines 74-95). The optional \<^verbatim>\<open>result\<close> object is the one
  written to and returned; both corners are computed before it is written, so it may be
  \<^verbatim>\<open>left\<close> or \<^verbatim>\<open>right\<close> itself.
\<close>

definition union_rect ::
  "boundingRectangle option \<Rightarrow> boundingRectangle option \<Rightarrow> boundingRectangle option
    \<Rightarrow> error + boundingRectangle" where
  "union_rect left right result =
     (case left of
        None \<Rightarrow> Inl (DeveloperError ''left is required.'')
      | Some l \<Rightarrow>
          (case right of
             None \<Rightarrow> Inl (DeveloperError ''right is required.'')
           | Some r \<Rightarrow>
               (let res = (case result of
                             None \<Rightarrow> BoundingRectangle None None None None
                           | Some given \<Rightarrow> given);
                    lowerLeft =
                      \<lparr>cartesian2.x = Math_min (boundingRectangle.x l) (boundingRectangle.x r),
                       y = Math_min (boundingRectangle.y l) (boundingRectangle.y r)\<rparr>;
                    upperRight =
                      \<lparr>cartesian2.x = Math_max (plus_js (boundingRectangle.x l) (width l))
                                               (plus_js (boundingRectangle.x r) (width r)),
                       y = Math_max (plus_js (boundingRectangle.y l) (height l))
                                    (plus_js (boundingRectangle.y r) (height r))\<rparr>
                in Inr (res\<lparr>boundingRectangle.x := cartesian2.x lowerLeft,
                             boundingRectangle.y := cartesian2.y lowerLeft,
                             width := minus_js (cartesian2.x upperRight) (cartesian2.x lowerLeft),
                             height := minus_js (cartesian2.y upperRight)
                                         (cartesian2.y lowerLeft)\<rparr>))))"

text \<open>
  \<^verbatim>\<open>BoundingRectangle.equals\<close> (lines 132-140). Its first test, \<^verbatim>\<open>left === right\<close>,
  compares references: it holds when both arguments are \<^verbatim>\<open>undefined\<close> or both are the same
  object, and it does not look at the fields. Rectangles are values here, so an argument of
  \<open>equals\<close> that is defined is the identity of the object together with its state; two
  objects have two identities, whatever their fields. The fields are compared with
  \<^verbatim>\<open>===\<close> on numbers.
\<close>

type_synonym identity = nat

definition equals ::
  "(identity \<times> boundingRectangle) option \<Rightarrow> (identity \<times> boundingRectangle) option \<Rightarrow> bool" where
  "equals left right =
     (map_option fst left = map_option fst right \<or>
      (case (left, right) of
         (Some (i, l), Some (j, r)) \<Rightarrow>
            strictEquals (boundingRectangle.x l) (boundingRectangle.x r) \<and>
            strictEquals (boundingRectangle.y l) (boundingRectangle.y r) \<and>
            strictEquals (width l) (width r) \<and>
            strictEquals (height l) (height r)
       | _ \<Rightarrow> False))"

text \<open>
  The loop of \<^verbatim>\<open>fromPoints\<close> (lines 171-191) over the positions from index 1 on, with the
  four running extrema as its state, updated in the order of the source.
\<close>

fun fromPoints_loop ::
  "cartesian2 list \<Rightarrow> number \<times> number \<times> number \<times> number
    \<Rightarrow> number \<times> number \<times> number \<times> number" where
  "fromPoints_loop [] extrema = extrema"
| "fromPoints_loop (p # ps) (minimumX, minimumY, maximumX, maximumY) =
     (let px = cartesian2.x p;
          py = cartesian2.y p;
          minimumX' = (if less_js px minimumX then px else minimumX);
          maximumX' = (if greater_js px maximumX then px else maximumX);
          minimumY' = (if less_js py minimumY then py else minimumY);
          maximumY' = (if greater_js py maximumY then py else maximumY)
      in fromPoints_loop ps (minimumX', minimumY', maximumX', maximumY'))"

text \<open>
  \<^verbatim>\<open>BoundingRectangle.fromPoints\<close> (lines 154-196). The argument is an array of points
  or \<^verbatim>\<open>undefined\<close>; an array always has a \<^verbatim>\<open>length\<close>.
\<close>

definition fromPoints :: "cartesian2 list option \<Rightarrow> error + boundingRectangle" where
  "fromPoints positions =
     (case positions of
        None \<Rightarrow> Inl (DeveloperError ''positions is required.'')
      | Some ps \<Rightarrow>
          if length ps \<le> 1
          then Inl (DeveloperError ''positions must have a length greater than one.'')
          else
            (case fromPoints_loop (drop 1 ps)
                    (cartesian2.x (ps ! 0), cartesian2.y (ps ! 0),
                     cartesian2.x (ps ! 0), cartesian2.y (ps ! 0)) of
               (minimumX, minimumY, maximumX, maximumY) \<Rightarrow>
                 Inr (BoundingRectangle (Some minimumX) (Some minimumY)
                        (Some (minus_js maximumX minimumX))
                        (Some (minus_js maximumY minimumY)))))"

text \<open>\<^verbatim>\<open>BoundingRectangle.intersect\<close> (lines 239-252).\<close>

definition intersect ::
  "boundingRectangle option \<Rightarrow> boundingRectangle option \<Rightarrow> error + bool" where
  "intersect rect1 rect2 =
     (case rect1 of
        None \<Rightarrow> Inl (DeveloperError ''rect1 is required.'')
      | Some r1 \<Rightarrow>
          (case rect2 of
             None \<Rightarrow> Inl (DeveloperError ''rect2 is required.'')
           | Some r2 \<Rightarrow>
               Inr (\<not> (greater_js (boundingRectangle.x r1)
                                   (plus_js (boundingRectangle.x r2) (width r2)) \<or>
                        less_js (plus_js (boundingRectangle.x r1) (width r1))
                                (boundingRectangle.x r2) \<or>
                        less_js (plus_js (boundingRectangle.y r1) (height r1))
                                (boundingRectangle.y r2) \<or>
                        greater_js (boundingRectangle.y r1)
                                   (plus_js (boundingRectangle.y r2) (height r2))))))"

subsection \<open>What the claims speak of\<close>

text \<open>
  The least and the greatest of a list of numbers, in the order \<^verbatim>\<open><=\<close>: a member of the
  list that is \<^verbatim>\<open><=\<close> every member, or that every member is \<^verbatim>\<open><=\<close>. A list with a
  \<^verbatim>\<open>NaN\<close> in it has neither. And the rectangles all of whose components are finite.
\<close>

definition leastOf :: "number list \<Rightarrow> number \<Rightarrow> bool" where
  "leastOf vs m = (m \<in> set vs \<and> list_all (\<lambda>v. lessEq_js m v) vs)"

definition greatestOf :: "number list \<Rightarrow> number \<Rightarrow> bool" where
  "greatestOf vs m = (m \<in> set vs \<and> list_all (\<lambda>v. lessEq_js v m) vs)"

definition finiteRectangle :: "boundingRectangle \<Rightarrow> bool" where
  "finiteRectangle r =
     (isFinite (boundingRectangle.x r) \<and> isFinite (boundingRectangle.y r) \<and>
      isFinite (width r) \<and> isFinite (height r))"

section \<open>DynamicScene/DynamicExternalDocument.js\<close>

subsection \<open>The collaborators that are not among the sources\<close>

text \<open>The two value types a dynamic property is constructed with (lines 52, 60, 69, 76).\<close>

datatype czmlType = CzmlString | CzmlNumber

text \<open>
  Modelled from the spec: \<^verbatim>\<open>Core/TimeInterval.js\<close> and \<^verbatim>\<open>DynamicScene/DynamicProperty.js\<close>
  are not among the sources, so what \<^verbatim>\<open>processCzmlPacket\<close> calls in them is a parameter
  of the model. The spec says of them: a malformed interval string fails with an error that
  is propagated to the caller; a dynamic property is created for a declared type and is
  fed raw packet fragments together with the interval of the enclosing packet
  (\<^verbatim>\<open>undefined\<close> when the packet has none), which changes that property and nothing else.
  \<^item> \<open>fromIso8601\<close> is \<^verbatim>\<open>TimeInterval.fromIso8601\<close>: the interval, or the error thrown;
  \<^item> \<open>DynamicProperty\<close> is the constructor \<^verbatim>\<open>new DynamicProperty(type)\<close>: the state of the
    new property;
  \<^item> \<open>processCzmlIntervals\<close> is the method of that name: from the state of the property,
    the fragments and the interval, the state of the property after the call and the error
    thrown by it, if any.
\<close>

record ('e, 'iv, 'raw, 'p) collaborators =
  fromIso8601 :: "string \<Rightarrow> 'e + 'iv"
  DynamicProperty :: "czmlType \<Rightarrow> 'p"
  processCzmlIntervals :: "'p \<Rightarrow> 'raw \<Rightarrow> 'iv option \<Rightarrow> 'p \<times> 'e option"

subsection \<open>Objects\<close>

text \<open>
  Dynamic properties are mutable objects that several documents can hold at once
  (\<^verbatim>\<open>mergeProperties\<close> copies a reference), so they live in a store and documents hold
  references to them. \<open>allocated\<close> counts the properties created so far: the next
  \<^verbatim>\<open>new DynamicProperty\<close> gets that address.
\<close>

type_synonym ref = nat

record 'p store =
  properties :: "ref \<Rightarrow> 'p"
  allocated :: nat

text \<open>
  The \<^verbatim>\<open>external\<close> sub-structure of a packet and the packet itself. \<open>'raw\<close> is the type
  of the raw fragments handed to \<^verbatim>\<open>processCzmlIntervals\<close>.
\<close>

record 'raw externalData =
  interval :: "string option"
  scope :: "string option"
  polling :: "'raw option"
  refreshInterval :: "'raw option"
  eventsource :: "'raw option"
  eventname :: "'raw option"

record 'raw packet =
  external :: "'raw externalData option"

text \<open>
  A \<^verbatim>\<open>DynamicExternalDocument\<close>. The constructor (lines 18-21) sets \<^verbatim>\<open>polling\<close> and
  \<^verbatim>\<open>show\<close> to \<^verbatim>\<open>undefined\<close>; the other fields do not exist on a new object, which
  \<^verbatim>\<open>typeof\<close> does not tell from \<^verbatim>\<open>undefined\<close>. No function of the module assigns
  \<^verbatim>\<open>show\<close>.
\<close>

record document =
  polling :: "ref option"
  show' :: "ref option"
  scope :: "string option"
  refreshInterval :: "ref option"
  eventsource :: "ref option"
  eventname :: "ref option"

definition DynamicExternalDocument :: document where
  "DynamicExternalDocument =
     \<lparr>document.polling = None, show' = None, scope = None, refreshInterval = None,
      eventsource = None, eventname = None\<rparr>"

text \<open>
  The entity. Its document is reached through it alone and is part of its value; its other
  attributes are the extension of the record scheme.
\<close>

record dynamicObject =
  external :: "document option"

subsection \<open>Operations on the store\<close>

text \<open>\<^verbatim>\<open>new DynamicProperty(type)\<close>: the store with the new property, and its address.\<close>

definition newProperty :: "'p store \<Rightarrow> 'p \<Rightarrow> 'p store \<times> ref" where
  "newProperty st p =
     (st\<lparr>properties := (properties st)(allocated st := p), allocated := Suc (allocated st)\<rparr>,
      allocated st)"

text \<open>\<^verbatim>\<open>property.processCzmlIntervals(raw, interval)\<close> on the property at address \<open>r\<close>.\<close>

definition feed ::
  "('e, 'iv, 'raw, 'p) collaborators \<Rightarrow> 'p store \<Rightarrow> ref \<Rightarrow> 'raw \<Rightarrow> 'iv option
    \<Rightarrow> 'p store \<times> 'e option" where
  "feed c st r raw iv =
     (case processCzmlIntervals c (properties st r) raw iv of
        (p', thrown) \<Rightarrow> (st\<lparr>properties := (properties st)(r := p')\<rparr>, thrown))"

subsection \<open>processCzmlPacket\<close>

text \<open>
  Lines 31-35 and 101-104: the document of the entity, or a new one when it has none.
\<close>

definition externalOrNew :: "document option \<Rightarrow> document" where
  "externalOrNew ext = (case ext of None \<Rightarrow> DynamicExternalDocument | Some d \<Rightarrow> d)"

text \<open>Lines 37-40: the interval of the packet, when it has one.\<close>

definition resolveInterval ::
  "('e, 'iv, 'raw, 'p) collaborators \<Rightarrow> 'raw externalData \<Rightarrow> 'e + 'iv option" where
  "resolveInterval c externalData =
     (case externalData.interval externalData of
        None \<Rightarrow> Inr None
      | Some iso8601 \<Rightarrow> (case fromIso8601 c iso8601 of Inl e \<Rightarrow> Inl e | Inr iv \<Rightarrow> Inr (Some iv)))"

text \<open>
  Lines 42-47: the scope of the packet is assigned when the packet has one and the document
  has none. The result is the document and the value of \<^verbatim>\<open>externalUpdated\<close>.
\<close>

definition assignScope :: "'raw externalData \<Rightarrow> document \<Rightarrow> bool \<Rightarrow> document \<times> bool" where
  "assignScope externalData ext externalUpdated =
     (if externalData.scope externalData \<noteq> None
      then (if document.scope ext = None
            then (ext\<lparr>document.scope := externalData.scope externalData\<rparr>, True)
            else (ext, externalUpdated))
      else (ext, externalUpdated))"

text \<open>
  Lines 50-64, the branch taken when the packet declares \<^verbatim>\<open>polling\<close>. The result is the
  store and the document as the branch leaves them, and the value of \<^verbatim>\<open>externalUpdated\<close>
  or the error thrown by a collaborator.
\<close>

definition pollingBranch ::
  "('e, 'iv, 'raw, 'p) collaborators \<Rightarrow> 'p store \<Rightarrow> document \<Rightarrow> bool \<Rightarrow> 'raw \<Rightarrow> 'raw option
    \<Rightarrow> 'iv option \<Rightarrow> ('p store \<times> document) \<times> ('e + bool)" where
  "pollingBranch c st ext externalUpdated rawPolling rawRefreshInterval iv =
     (case (case document.polling ext of
              None \<Rightarrow>
                (case newProperty st (DynamicProperty c CzmlString) of
                   (st1, r) \<Rightarrow> (st1, ext\<lparr>document.polling := Some r\<rparr>, r, True))
            | Some r \<Rightarrow> (st, ext, r, externalUpdated)) of
        (st1, ext1, pollingRef, externalUpdated1) \<Rightarrow>
          (case feed c st1 pollingRef rawPolling iv of
             (st2, Some e) \<Rightarrow> ((st2, ext1), Inl e)
           | (st2, None) \<Rightarrow>
               (case rawRefreshInterval of
                  None \<Rightarrow> ((st2, ext1), Inr externalUpdated1)
                | Some raw \<Rightarrow>
                    (case document.refreshInterval ext1 of
                       Some r \<Rightarrow> ((st2, ext1), Inr externalUpdated1)
                     | None \<Rightarrow>
                         (case newProperty st2 (DynamicProperty c CzmlNumber) of
                            (st3, r) \<Rightarrow>
                              (case feed c st3 r raw iv of
                                 (st4, Some e) \<Rightarrow>
                                   ((st4, ext1\<lparr>document.refreshInterval := Some r\<rparr>), Inl e)
                               | (st4, None) \<Rightarrow>
                                   ((st4, ext1\<lparr>document.refreshInterval := Some r\<rparr>),
                                    Inr True)))))))"

text \<open>Lines 67-80, the branch taken when the packet declares \<^verbatim>\<open>eventsource\<close> and no \<^verbatim>\<open>polling\<close>.\<close>

definition eventsourceBranch ::
  "('e, 'iv, 'raw, 'p) collaborators \<Rightarrow> 'p store \<Rightarrow> document \<Rightarrow> bool \<Rightarrow> 'raw \<Rightarrow> 'raw option
    \<Rightarrow> 'iv option \<Rightarrow> ('p store \<times> document) \<times> ('e + bool)" where
  "eventsourceBranch c st ext externalUpdated rawEventsource rawEventname iv =
     (case (case document.eventsource ext of
              None \<Rightarrow>
                (case newProperty st (DynamicProperty c CzmlString) of
                   (st1, r) \<Rightarrow> (st1, ext\<lparr>document.eventsource := Some r\<rparr>, r, True))
            | Some r \<Rightarrow> (st, ext, r, externalUpdated)) of
        (st1, ext1, eventsourceRef, externalUpdated1) \<Rightarrow>
          (case feed c st1 eventsourceRef rawEventsource iv of
             (st2, Some e) \<Rightarrow> ((st2, ext1), Inl e)
           | (st2, None) \<Rightarrow>
               (case rawEventname of
                  None \<Rightarrow> ((st2, ext1), Inr externalUpdated1)
                | Some raw \<Rightarrow>
                    (case document.eventname ext1 of
                       Some r \<Rightarrow> ((st2, ext1), Inr externalUpdated1)
                     | None \<Rightarrow>
                         (case newProperty st2 (DynamicProperty c CzmlString) of
                            (st3, r) \<Rightarrow>
                              (case feed c st3 r raw iv of
                                 (st4, Some e) \<Rightarrow>
                                   ((st4, ext1\<lparr>document.eventname := Some r\<rparr>), Inl e)
                               | (st4, None) \<Rightarrow>
                                   ((st4, ext1\<lparr>document.eventname := Some r\<rparr>),
                                    Inr True)))))))"

text \<open>
  \<^verbatim>\<open>DynamicExternalDocument.processCzmlPacket\<close> (lines 24-84). The result is the store and
  the entity as the call leaves them, also when it throws, and \<open>Inr\<close> of the boolean it
  returns or \<open>Inl\<close> of the error a collaborator threw. The document is mutated in place by
  the source; here it is written back into the entity at the end.
\<close>

definition processCzmlPacket ::
  "('e, 'iv, 'raw, 'p) collaborators \<Rightarrow> 'p store \<Rightarrow> 'z dynamicObject_scheme \<Rightarrow> 'raw packet
    \<Rightarrow> ('p store \<times> 'z dynamicObject_scheme) \<times> ('e + bool)" where
  "processCzmlPacket c st dynamicObject pkt =
     (case packet.external pkt of
        None \<Rightarrow> ((st, dynamicObject), Inr False)
      | Some externalData \<Rightarrow>
          (let externalUpdated = (dynamicObject.external dynamicObject = None);
               ext = externalOrNew (dynamicObject.external dynamicObject)
           in case resolveInterval c externalData of
                Inl e \<Rightarrow> ((st, dynamicObject\<lparr>dynamicObject.external := Some ext\<rparr>), Inl e)
              | Inr iv \<Rightarrow>
                  (case assignScope externalData ext externalUpdated of
                     (ext1, externalUpdated1) \<Rightarrow>
                       (case (case externalData.polling externalData of
                                Some rawPolling \<Rightarrow>
                                  pollingBranch c st ext1 externalUpdated1 rawPolling
                                    (externalData.refreshInterval externalData) iv
                              | None \<Rightarrow>
                                  (case externalData.eventsource externalData of
                                     Some rawEventsource \<Rightarrow>
                                       eventsourceBranch c st ext1 externalUpdated1 rawEventsource
                                         (externalData.eventname externalData) iv
                                   | None \<Rightarrow> ((st, ext1), Inr externalUpdated1))) of
                          ((st', ext'), outcome) \<Rightarrow>
                            ((st', dynamicObject\<lparr>dynamicObject.external := Some ext'\<rparr>),
                             outcome)))))"

subsection \<open>mergeProperties and undefineProperties\<close>

text \<open>
  \<^verbatim>\<open>DynamicExternalDocument.mergeProperties\<close> (lines 97-108). No property is created or
  fed, so the store is not involved; only the target is written, so the result is the
  target. In line 106 both arguments of \<^verbatim>\<open>defaultValue\<close> may be \<^verbatim>\<open>undefined\<close>: the
  second is passed as it is, and the first is defined exactly when the target has a polling
  property.
\<close>

definition mergeProperties ::
  "'z dynamicObject_scheme \<Rightarrow> 'y dynamicObject_scheme \<Rightarrow> 'z dynamicObject_scheme" where
  "mergeProperties targetObject objectToMerge =
     (case dynamicObject.external objectToMerge of
        None \<Rightarrow> targetObject
      | Some externalToMerge \<Rightarrow>
          (let targetExternal = externalOrNew (dynamicObject.external targetObject)
           in targetObject\<lparr>dynamicObject.external :=
                Some (targetExternal\<lparr>document.polling :=
                        defaultValue (map_option Some (document.polling targetExternal))
                          (document.polling externalToMerge)\<rparr>)\<rparr>))"

text \<open>\<^verbatim>\<open>DynamicExternalDocument.undefineProperties\<close> (lines 119-121).\<close>

definition undefineProperties :: "'z dynamicObject_scheme \<Rightarrow> 'z dynamicObject_scheme" where
  "undefineProperties dynamicObject = dynamicObject\<lparr>dynamicObject.external := None\<rparr>"

subsection \<open>Successive calls, and documents whose properties are separate objects\<close>

text \<open>
  The calls of \<^verbatim>\<open>processCzmlPacket\<close> on one entity for the packets of a stream, in
  their order of arrival: each call works on what the one before left, whether that one
  returned or threw. This is what "a later packet" means below.
\<close>

fun processCzmlPackets ::
  "('e, 'iv, 'raw, 'p) collaborators \<Rightarrow> 'p store \<Rightarrow> 'z dynamicObject_scheme \<Rightarrow> 'raw packet list
    \<Rightarrow> 'p store \<times> 'z dynamicObject_scheme" where
  "processCzmlPackets c st dynamicObject [] = (st, dynamicObject)"
| "processCzmlPackets c st dynamicObject (pkt # pkts) =
     (case processCzmlPacket c st dynamicObject pkt of
        ((st', dynamicObject'), outcome) \<Rightarrow> processCzmlPackets c st' dynamicObject' pkts)"

text \<open>
  The references a document holds, and the condition that they are references to
  objects that exist, no two fields holding the same object. Every property that
  \<^verbatim>\<open>processCzmlPacket\<close> assigns to a field is a new object, so the condition holds of a
  new document and the function keeps it.
\<close>

definition propertyRefs :: "document \<Rightarrow> ref list" where
  "propertyRefs d =
     concat (map (\<lambda>field. case field d of None \<Rightarrow> [] | Some r \<Rightarrow> [r])
       [document.polling, show', document.refreshInterval, document.eventsource,
        document.eventname])"

definition wellFormed :: "'p store \<Rightarrow> document \<Rightarrow> bool" where
  "wellFormed st d =
     (distinct (propertyRefs d) \<and> list_all (\<lambda>r. r < allocated st) (propertyRefs d))"

subsection \<open>An instance of the collaborators\<close>

text \<open>
  Modelled from the spec: the theorems of this theory hold for every choice of the
  collaborators; the instance below serves to run the model on concrete packets. A raw
  fragment is a string and carries no interval of its own; an interval is kept as its
  text, the empty text being malformed; a dynamic property is its declared type with the
  bindings fed to it, each the interval of the enclosing packet and the value, in the
  order of the calls.
\<close>

definition exampleCollaborators ::
  "(error, string, string, czmlType \<times> (string option \<times> string) list) collaborators" where
  "exampleCollaborators =
     \<lparr>fromIso8601 = (\<lambda>text. if text = [] then Inl (DeveloperError ''malformed interval'')
                              else Inr text),
      DynamicProperty = (\<lambda>type. (type, [])),
      processCzmlIntervals = (\<lambda>p raw iv. ((fst p, snd p @ [(iv, raw)]), None))\<rparr>"

definition emptyStore :: "(czmlType \<times> (string option \<times> string) list) store" where
  "emptyStore = \<lparr>properties = (\<lambda>r. (CzmlString, [])), allocated = 0\<rparr>"

text \<open>The \<^verbatim>\<open>external\<close> sub-structure that declares nothing, to build packets from.\<close>

definition noExternalData :: "string externalData" where
  "noExternalData =
     \<lparr>externalData.interval = None, scope = None, polling = None, refreshInterval = None,
      eventsource = None, eventname = None\<rparr>"

section \<open>Properties of BoundingRectangle\<close>

subsection \<open>The order of the numbers that are not NaN\<close>

lemma less_js_NaN [simp]: "\<not> less_js a NaN"
  by (cases a) simp_all

lemma less_js_irrefl [simp]: "\<not> less_js a a"
  by (cases a) simp_all

lemma less_js_asym: "less_js a b \<Longrightarrow> \<not> less_js b a"
  by (cases a; cases b) simp_all

lemma less_js_trans: "less_js a b \<Longrightarrow> less_js b c \<Longrightarrow> less_js a c"
  by (cases a; cases b; cases c) simp_all

lemma less_js_total: "a \<noteq> NaN \<Longrightarrow> b \<noteq> NaN \<Longrightarrow> less_js a b \<or> a = b \<or> less_js b a"
  by (cases a; cases b) auto

lemma lessEq_js_refl: "a \<noteq> NaN \<Longrightarrow> lessEq_js a a"
  by (simp add: lessEq_js_def)

lemma lessEq_js_trans: "lessEq_js a b \<Longrightarrow> lessEq_js b c \<Longrightarrow> lessEq_js a c"
  unfolding lessEq_js_def by (auto dest: less_js_trans)

lemma lessEq_js_antisym: "lessEq_js a b \<Longrightarrow> lessEq_js b a \<Longrightarrow> a = b"
  unfolding lessEq_js_def by (auto dest: less_js_asym)

lemma lessEq_js_total: "a \<noteq> NaN \<Longrightarrow> b \<noteq> NaN \<Longrightarrow> \<not> less_js b a \<Longrightarrow> lessEq_js a b"
  unfolding lessEq_js_def using less_js_total [of a b] by auto

lemma less_js_lessEq: "less_js a b \<Longrightarrow> a \<noteq> NaN \<Longrightarrow> lessEq_js a b"
  unfolding lessEq_js_def by (cases b) auto

text \<open>A list has at most one least and at most one greatest member.\<close>

lemma leastOf_unique: "leastOf vs m \<Longrightarrow> leastOf vs m' \<Longrightarrow> m = m'"
  unfolding leastOf_def list_all_iff by (blast intro: lessEq_js_antisym)

lemma greatestOf_unique: "greatestOf vs m \<Longrightarrow> greatestOf vs m' \<Longrightarrow> m = m'"
  unfolding greatestOf_def list_all_iff by (blast intro: lessEq_js_antisym)

subsection \<open>The loop of fromPoints\<close>

text \<open>The loop runs four independent scans, two for a least and two for a greatest member.\<close>

lemma fromPoints_loop_scans:
  "fromPoints_loop ps (a, b, c, d) =
     (foldl (\<lambda>m v. if less_js v m then v else m) a (map cartesian2.x ps),
      foldl (\<lambda>m v. if less_js v m then v else m) b (map cartesian2.y ps),
      foldl (\<lambda>m v. if greater_js v m then v else m) c (map cartesian2.x ps),
      foldl (\<lambda>m v. if greater_js v m then v else m) d (map cartesian2.y ps))"
  by (induction ps arbitrary: a b c d) (simp_all add: Let_def)

lemma scan_least:
  assumes "m0 \<noteq> NaN" and "list_all (\<lambda>v. v \<noteq> NaN) vs"
  shows "foldl (\<lambda>m v. if less_js v m then v else m) m0 vs \<in> set (m0 # vs) \<and>
         lessEq_js (foldl (\<lambda>m v. if less_js v m then v else m) m0 vs) m0 \<and>
         list_all (lessEq_js (foldl (\<lambda>m v. if less_js v m then v else m) m0 vs)) vs"
  using assms
proof (induction vs arbitrary: m0)
  case Nil
  then show ?case by (simp add: lessEq_js_refl)
next
  case (Cons v vs)
  let ?s = "if less_js v m0 then v else m0"
  let ?r = "foldl (\<lambda>m v. if less_js v m then v else m) ?s vs"
  from Cons.prems have v: "v \<noteq> NaN" and vs: "list_all (\<lambda>v. v \<noteq> NaN) vs" by simp_all
  from Cons.prems(1) v have s: "?s \<noteq> NaN" by simp
  from Cons.IH [OF s vs]
  have r: "?r \<in> set (?s # vs)" "lessEq_js ?r ?s" "list_all (lessEq_js ?r) vs" by simp_all
  have "lessEq_js ?s m0" "lessEq_js ?s v"
    using Cons.prems(1) v
    by (auto simp: lessEq_js_refl less_js_lessEq lessEq_js_total)
  with r(2) have "lessEq_js ?r m0" "lessEq_js ?r v"
    by (blast intro: lessEq_js_trans)+
  moreover from r(1) have "?r \<in> set (m0 # v # vs)" by auto
  ultimately show ?case using r(3) by simp
qed

lemma scan_greatest:
  assumes "m0 \<noteq> NaN" and "list_all (\<lambda>v. v \<noteq> NaN) vs"
  shows "foldl (\<lambda>m v. if greater_js v m then v else m) m0 vs \<in> set (m0 # vs) \<and>
         lessEq_js m0 (foldl (\<lambda>m v. if greater_js v m then v else m) m0 vs) \<and>
         list_all (\<lambda>v. lessEq_js v (foldl (\<lambda>m v. if greater_js v m then v else m) m0 vs)) vs"
  using assms
proof (induction vs arbitrary: m0)
  case Nil
  then show ?case by (simp add: lessEq_js_refl)
next
  case (Cons v vs)
  let ?s = "if greater_js v m0 then v else m0"
  let ?r = "foldl (\<lambda>m v. if greater_js v m then v else m) ?s vs"
  from Cons.prems have v: "v \<noteq> NaN" and vs: "list_all (\<lambda>v. v \<noteq> NaN) vs" by simp_all
  from Cons.prems(1) v have s: "?s \<noteq> NaN" by simp
  from Cons.IH [OF s vs]
  have r: "?r \<in> set (?s # vs)" "lessEq_js ?s ?r" "list_all (\<lambda>v. lessEq_js v ?r) vs"
    by simp_all
  have "lessEq_js m0 ?s" "lessEq_js v ?s"
    using Cons.prems(1) v
    by (auto simp: greater_js_def lessEq_js_refl less_js_lessEq lessEq_js_total)
  with r(2) have "lessEq_js m0 ?r" "lessEq_js v ?r"
    by (blast intro: lessEq_js_trans)+
  moreover from r(1) have "?r \<in> set (m0 # v # vs)" by auto
  ultimately show ?case using r(3) by simp
qed

lemma fromPoints_without_NaN:
  assumes "2 \<le> length ps"
    and "list_all (\<lambda>p. cartesian2.x p \<noteq> NaN \<and> cartesian2.y p \<noteq> NaN) ps"
  shows "\<exists>minimumX minimumY maximumX maximumY.
           fromPoints (Some ps) =
             Inr \<lparr>boundingRectangle.x = minimumX, y = minimumY,
                  width = minus_js maximumX minimumX,
                  height = minus_js maximumY minimumY\<rparr> \<and>
           leastOf (map cartesian2.x ps) minimumX \<and>
           leastOf (map cartesian2.y ps) minimumY \<and>
           greatestOf (map cartesian2.x ps) maximumX \<and>
           greatestOf (map cartesian2.y ps) maximumY"
proof -
  from assms(1) obtain p0 rest where ps: "ps = p0 # rest"
    by (cases ps) auto
  from assms(2) have p0: "cartesian2.x p0 \<noteq> NaN" "cartesian2.y p0 \<noteq> NaN"
    and xs: "list_all (\<lambda>v. v \<noteq> NaN) (map cartesian2.x rest)"
    and ys: "list_all (\<lambda>v. v \<noteq> NaN) (map cartesian2.y rest)"
    by (simp_all add: ps list_all_iff)
  let ?minX = "foldl (\<lambda>m v. if less_js v m then v else m) (cartesian2.x p0) (map cartesian2.x rest)"
  let ?minY = "foldl (\<lambda>m v. if less_js v m then v else m) (cartesian2.y p0) (map cartesian2.y rest)"
  let ?maxX = "foldl (\<lambda>m v. if greater_js v m then v else m) (cartesian2.x p0) (map cartesian2.x rest)"
  let ?maxY = "foldl (\<lambda>m v. if greater_js v m then v else m) (cartesian2.y p0) (map cartesian2.y rest)"
  have "\<not> length ps \<le> 1" using assms(1) by simp
  then have run: "fromPoints (Some ps) =
             Inr \<lparr>boundingRectangle.x = ?minX, y = ?minY,
                  width = minus_js ?maxX ?minX, height = minus_js ?maxY ?minY\<rparr>"
    by (simp add: fromPoints_def fromPoints_loop_scans BoundingRectangle_def defaultValue_def ps)
  have "leastOf (map cartesian2.x ps) ?minX"
    using scan_least [OF p0(1) xs] by (simp add: leastOf_def ps)
  moreover have "leastOf (map cartesian2.y ps) ?minY"
    using scan_least [OF p0(2) ys] by (simp add: leastOf_def ps)
  moreover have "greatestOf (map cartesian2.x ps) ?maxX"
    using scan_greatest [OF p0(1) xs] by (simp add: greatestOf_def ps)
  moreover have "greatestOf (map cartesian2.y ps) ?maxY"
    using scan_greatest [OF p0(2) ys] by (simp add: greatestOf_def ps)
  ultimately show ?thesis using run by blast
qed

text \<open>
  C8. For every list of two or more points none of whose \<^verbatim>\<open>x\<close> or \<^verbatim>\<open>y\<close> is \<^verbatim>\<open>NaN\<close>,
  \<^verbatim>\<open>BoundingRectangle.fromPoints\<close> returns the rectangle whose \<^verbatim>\<open>x\<close> and \<^verbatim>\<open>y\<close> are the
  least \<^verbatim>\<open>x\<close> and the least \<^verbatim>\<open>y\<close> of the points, and whose \<^verbatim>\<open>width\<close> and \<^verbatim>\<open>height\<close> are
  the greatest minus the least; for the points (0,0), (2,3), (-1,5) that is x = -1,
  y = 0, width = 3, height = 5.
\<close>

theorem fromPoints_extrema:
  "(2 \<le> length ps \<and> list_all (\<lambda>p. cartesian2.x p \<noteq> NaN \<and> cartesian2.y p \<noteq> NaN) ps \<longrightarrow>
      (\<exists>minimumX minimumY maximumX maximumY.
         fromPoints (Some ps) =
           Inr \<lparr>boundingRectangle.x = minimumX, y = minimumY,
                width = minus_js maximumX minimumX,
                height = minus_js maximumY minimumY\<rparr> \<and>
         leastOf (map cartesian2.x ps) minimumX \<and>
         leastOf (map cartesian2.y ps) minimumY \<and>
         greatestOf (map cartesian2.x ps) maximumX \<and>
         greatestOf (map cartesian2.y ps) maximumY)) \<and>
   fromPoints (Some [\<lparr>cartesian2.x = Finite 0, y = Finite 0\<rparr>,
                     \<lparr>cartesian2.x = Finite 2, y = Finite 3\<rparr>,
                     \<lparr>cartesian2.x = Finite (- 1), y = Finite 5\<rparr>]) =
     Inr \<lparr>boundingRectangle.x = Finite (- 1), y = Finite 0, width = Finite 3,
          height = Finite 5\<rparr>"
proof (intro conjI impI)
  assume "2 \<le> length ps \<and> list_all (\<lambda>p. cartesian2.x p \<noteq> NaN \<and> cartesian2.y p \<noteq> NaN) ps"
  then show "\<exists>minimumX minimumY maximumX maximumY.
         fromPoints (Some ps) =
           Inr \<lparr>boundingRectangle.x = minimumX, y = minimumY,
                width = minus_js maximumX minimumX,
                height = minus_js maximumY minimumY\<rparr> \<and>
         leastOf (map cartesian2.x ps) minimumX \<and>
         leastOf (map cartesian2.y ps) minimumY \<and>
         greatestOf (map cartesian2.x ps) maximumX \<and>
         greatestOf (map cartesian2.y ps) maximumY"
    by (intro fromPoints_without_NaN) simp_all
next
  show "fromPoints (Some [\<lparr>cartesian2.x = Finite 0, y = Finite 0\<rparr>,
                     \<lparr>cartesian2.x = Finite 2, y = Finite 3\<rparr>,
                     \<lparr>cartesian2.x = Finite (- 1), y = Finite 5\<rparr>]) =
     Inr \<lparr>boundingRectangle.x = Finite (- 1), y = Finite 0, width = Finite 3,
          height = Finite 5\<rparr>"
    by (simp add: fromPoints_def BoundingRectangle_def defaultValue_def greater_js_def Let_def)
qed

theorem fromPoints_extrema_witness:
  "2 \<le> length [\<lparr>cartesian2.x = Finite 4, y = Finite 1\<rparr>, \<lparr>cartesian2.x = Finite 1, y = Infinity\<rparr>] \<and>
   list_all (\<lambda>p. cartesian2.x p \<noteq> NaN \<and> cartesian2.y p \<noteq> NaN)
     [\<lparr>cartesian2.x = Finite 4, y = Finite 1\<rparr>, \<lparr>cartesian2.x = Finite 1, y = Infinity\<rparr>] \<and>
   fromPoints (Some [\<lparr>cartesian2.x = Finite 4, y = Finite 1\<rparr>,
                     \<lparr>cartesian2.x = Finite 1, y = Infinity\<rparr>]) =
     Inr \<lparr>boundingRectangle.x = Finite 1, y = Finite 1, width = Finite 3, height = Infinity\<rparr> \<and>
   leastOf [Finite 4, Finite 1] (Finite 1) \<and> greatestOf [Finite 1, Infinity] Infinity"
proof -
  let ?ps = "[\<lparr>cartesian2.x = Finite 4, y = Finite 1\<rparr>, \<lparr>cartesian2.x = Finite 1, y = Infinity\<rparr>]"
  have hyp: "2 \<le> length ?ps \<and>
      list_all (\<lambda>p. cartesian2.x p \<noteq> NaN \<and> cartesian2.y p \<noteq> NaN) ?ps"
    by simp
  have run: "fromPoints (Some ?ps) =
      Inr \<lparr>boundingRectangle.x = Finite 1, y = Finite 1, width = Finite 3, height = Infinity\<rparr>"
    by (simp add: fromPoints_def BoundingRectangle_def defaultValue_def greater_js_def Let_def)
  from fromPoints_extrema [of ?ps] hyp
  obtain minimumX minimumY maximumX maximumY where
    r: "fromPoints (Some ?ps) =
           Inr \<lparr>boundingRectangle.x = minimumX, y = minimumY,
                width = minus_js maximumX minimumX,
                height = minus_js maximumY minimumY\<rparr>"
    and least: "leastOf (map cartesian2.x ?ps) minimumX"
    and greatest: "greatestOf (map cartesian2.y ?ps) maximumY"
    by blast
  from r run have x: "minimumX = Finite 1" by simp
  from greatest have "maximumY = Finite 1 \<or> maximumY = Infinity"
    by (simp add: greatestOf_def)
  with greatest have y: "maximumY = Infinity"
    by (auto simp: greatestOf_def lessEq_js_def)
  from least greatest have "leastOf [Finite 4, Finite 1] (Finite 1)"
    "greatestOf [Finite 1, Infinity] Infinity"
    unfolding x y by simp_all
  with hyp run show ?thesis by simp
qed

text \<open>
  The claim without the condition fails. With a \<^verbatim>\<open>NaN\<close> at index 0 both comparisons of
  the loop are false for every later point, so \<^verbatim>\<open>x\<close> stays \<^verbatim>\<open>NaN\<close>; with the same points
  in another order the \<^verbatim>\<open>NaN\<close> is skipped. In neither order is the \<^verbatim>\<open>x\<close> returned the least
  \<^verbatim>\<open>x\<close> of the points.
\<close>

theorem fromPoints_NaN_counterexample:
  "fromPoints (Some [\<lparr>cartesian2.x = NaN, y = Finite 0\<rparr>,
                     \<lparr>cartesian2.x = Finite 1, y = Finite 1\<rparr>,
                     \<lparr>cartesian2.x = Finite 3, y = Finite 2\<rparr>]) =
     Inr \<lparr>boundingRectangle.x = NaN, y = Finite 0, width = NaN, height = Finite 2\<rparr> \<and>
   \<not> leastOf [NaN, Finite 1, Finite 3] NaN \<and>
   fromPoints (Some [\<lparr>cartesian2.x = Finite 1, y = Finite 1\<rparr>,
                     \<lparr>cartesian2.x = NaN, y = Finite 0\<rparr>,
                     \<lparr>cartesian2.x = Finite 3, y = Finite 2\<rparr>]) =
     Inr \<lparr>boundingRectangle.x = Finite 1, y = Finite 0, width = Finite 2, height = Finite 2\<rparr> \<and>
   \<not> leastOf [Finite 1, NaN, Finite 3] (Finite 1)"
  by (simp add: fromPoints_def BoundingRectangle_def defaultValue_def greater_js_def
      leastOf_def lessEq_js_def Let_def)

text \<open>
  C9. The geometry functions throw exactly when a required argument is absent:
  \<^verbatim>\<open>union\<close> when \<^verbatim>\<open>left\<close> or \<^verbatim>\<open>right\<close> is, \<^verbatim>\<open>intersect\<close> when either rectangle is, and
  \<^verbatim>\<open>fromPoints\<close> when the list is, or has fewer than two points; otherwise none of them
  throws. What they throw is the \<^verbatim>\<open>DeveloperError\<close> of the source, which the
  specification calls InvalidArgumentError.
\<close>

theorem geometry_errors:
  "((\<exists>msg. union_rect left right result = Inl (DeveloperError msg)) =
      (left = None \<or> right = None)) \<and>
   ((\<exists>msg. intersect rect1 rect2 = Inl (DeveloperError msg)) =
      (rect1 = None \<or> rect2 = None)) \<and>
   ((\<exists>msg. fromPoints positions = Inl (DeveloperError msg)) =
      (positions = None \<or> (\<exists>ps. positions = Some ps \<and> length ps < 2)))"
  by (auto simp: union_rect_def intersect_def fromPoints_def Let_def
      split: option.splits prod.splits)

theorem geometry_errors_witness:
  "(\<exists>msg. union_rect None (Some (BoundingRectangle None None None None)) None =
            Inl (DeveloperError msg)) \<and>
   (\<nexists>msg. intersect (Some (BoundingRectangle None None None None))
            (Some (BoundingRectangle None None None None)) = Inl (DeveloperError msg)) \<and>
   (\<exists>msg. fromPoints (Some [\<lparr>cartesian2.x = Finite 0, y = Finite 0\<rparr>]) =
            Inl (DeveloperError msg))"
  using geometry_errors
    [of None "Some (BoundingRectangle None None None None)" None
      "Some (BoundingRectangle None None None None)"
      "Some (BoundingRectangle None None None None)"
      "Some [\<lparr>cartesian2.x = Finite 0, y = Finite 0\<rparr>]"]
  by simp

subsection \<open>union and equals\<close>

lemma Math_min_commute: "Math_min a b = Math_min b a"
  unfolding Math_min_def using less_js_total [of a b] less_js_asym [of a b] by auto

lemma Math_max_commute: "Math_max a b = Math_max b a"
  unfolding Math_max_def using less_js_total [of a b] less_js_asym [of a b] by auto

lemma union_rect_value:
  "union_rect (Some a) (Some b) result =
     Inr \<lparr>boundingRectangle.x = Math_min (boundingRectangle.x a) (boundingRectangle.x b),
          y = Math_min (boundingRectangle.y a) (boundingRectangle.y b),
          width = minus_js (Math_max (plus_js (boundingRectangle.x a) (width a))
                                     (plus_js (boundingRectangle.x b) (width b)))
                           (Math_min (boundingRectangle.x a) (boundingRectangle.x b)),
          height = minus_js (Math_max (plus_js (boundingRectangle.y a) (height a))
                                      (plus_js (boundingRectangle.y b) (height b)))
                            (Math_min (boundingRectangle.y a) (boundingRectangle.y b))\<rparr>"
  by (simp add: union_rect_def Let_def BoundingRectangle_def split: option.splits)

lemma equals_of_same_state:
  "equals (Some (i, r)) (Some (j, r)) =
     (i = j \<or> (boundingRectangle.x r \<noteq> NaN \<and> boundingRectangle.y r \<noteq> NaN \<and>
                width r \<noteq> NaN \<and> height r \<noteq> NaN))"
  by (simp add: equals_def strictEquals_def)

lemma isFinite_iff: "isFinite a = (\<exists>r. a = Finite r)"
  by (cases a) simp_all

lemma finite_union_not_NaN:
  assumes "isFinite xa" "isFinite wa" "isFinite xb" "isFinite wb"
  shows "Math_min xa xb \<noteq> NaN"
    and "minus_js (Math_max (plus_js xa wa) (plus_js xb wb)) (Math_min xa xb) \<noteq> NaN"
  using assms by (auto simp: isFinite_iff Math_min_def Math_max_def)

text \<open>
  C10. \<^verbatim>\<open>BoundingRectangle.union\<close> is commutative up to \<^verbatim>\<open>NaN\<close>: for every two
  rectangles, whatever the \<^verbatim>\<open>result\<close> arguments, both orders return, and the two results
  have the same \<^verbatim>\<open>x\<close>, \<^verbatim>\<open>y\<close>, \<^verbatim>\<open>width\<close> and \<^verbatim>\<open>height\<close>. \<^verbatim>\<open>BoundingRectangle.equals\<close> of the
  two results is true exactly when they are one object or none of these components is
  \<^verbatim>\<open>NaN\<close>; it is true whenever all components of both rectangles are finite.
\<close>

theorem union_commutative:
  "\<exists>u v. union_rect (Some a) (Some b) result1 = Inr u \<and>
          union_rect (Some b) (Some a) result2 = Inr v \<and>
          boundingRectangle.x u = boundingRectangle.x v \<and>
          boundingRectangle.y u = boundingRectangle.y v \<and>
          width u = width v \<and> height u = height v \<and>
          (\<forall>i j. equals (Some (i, u)) (Some (j, v)) =
                   (i = j \<or> (boundingRectangle.x u \<noteq> NaN \<and> boundingRectangle.y u \<noteq> NaN \<and>
                              width u \<noteq> NaN \<and> height u \<noteq> NaN))) \<and>
          (finiteRectangle a \<and> finiteRectangle b \<longrightarrow>
             (\<forall>i j. equals (Some (i, u)) (Some (j, v))))"
proof -
  let ?u = "\<lparr>boundingRectangle.x = Math_min (boundingRectangle.x a) (boundingRectangle.x b),
          y = Math_min (boundingRectangle.y a) (boundingRectangle.y b),
          width = minus_js (Math_max (plus_js (boundingRectangle.x a) (width a))
                                     (plus_js (boundingRectangle.x b) (width b)))
                           (Math_min (boundingRectangle.x a) (boundingRectangle.x b)),
          height = minus_js (Math_max (plus_js (boundingRectangle.y a) (height a))
                                      (plus_js (boundingRectangle.y b) (height b)))
                            (Math_min (boundingRectangle.y a) (boundingRectangle.y b))\<rparr>"
  have u: "union_rect (Some a) (Some b) result1 = Inr ?u"
    by (rule union_rect_value)
  have v: "union_rect (Some b) (Some a) result2 = Inr ?u"
    unfolding union_rect_value
    by (simp add: Math_min_commute [of "boundingRectangle.x b"]
        Math_min_commute [of "boundingRectangle.y b"]
        Math_max_commute [of "plus_js (boundingRectangle.x b) (width b)"]
        Math_max_commute [of "plus_js (boundingRectangle.y b) (height b)"])
  have finite: "finiteRectangle a \<and> finiteRectangle b \<longrightarrow> (\<forall>i j. equals (Some (i, ?u)) (Some (j, ?u)))"
    unfolding equals_of_same_state finiteRectangle_def
    using finite_union_not_NaN [of "boundingRectangle.x a" "width a" "boundingRectangle.x b" "width b"]
      finite_union_not_NaN [of "boundingRectangle.y a" "height a" "boundingRectangle.y b" "height b"]
    by simp
  show ?thesis
    using u v finite by (intro exI [of _ ?u]) (simp add: equals_of_same_state)
qed

theorem union_commutative_witness:
  "finiteRectangle \<lparr>boundingRectangle.x = Finite 0, y = Finite 0, width = Finite 2, height = Finite 2\<rparr> \<and>
   finiteRectangle \<lparr>boundingRectangle.x = Finite 3, y = Finite 3, width = Finite 1, height = Finite 1\<rparr> \<and>
   union_rect
     (Some \<lparr>boundingRectangle.x = Finite 0, y = Finite 0, width = Finite 2, height = Finite 2\<rparr>)
     (Some \<lparr>boundingRectangle.x = Finite 3, y = Finite 3, width = Finite 1, height = Finite 1\<rparr>)
     None =
     Inr \<lparr>boundingRectangle.x = Finite 0, y = Finite 0, width = Finite 4, height = Finite 4\<rparr> \<and>
   union_rect
     (Some \<lparr>boundingRectangle.x = Finite 3, y = Finite 3, width = Finite 1, height = Finite 1\<rparr>)
     (Some \<lparr>boundingRectangle.x = Finite 0, y = Finite 0, width = Finite 2, height = Finite 2\<rparr>)
     None =
     Inr \<lparr>boundingRectangle.x = Finite 0, y = Finite 0, width = Finite 4, height = Finite 4\<rparr> \<and>
   equals
     (Some (0, \<lparr>boundingRectangle.x = Finite 0, y = Finite 0, width = Finite 4, height = Finite 4\<rparr>))
     (Some (1, \<lparr>boundingRectangle.x = Finite 0, y = Finite 0, width = Finite 4, height = Finite 4\<rparr>))"
proof -
  let ?a = "\<lparr>boundingRectangle.x = Finite 0, y = Finite 0, width = Finite 2, height = Finite 2\<rparr>"
  let ?b = "\<lparr>boundingRectangle.x = Finite 3, y = Finite 3, width = Finite 1, height = Finite 1\<rparr>"
  let ?r = "\<lparr>boundingRectangle.x = Finite 0, y = Finite 0, width = Finite 4, height = Finite 4\<rparr>"
  have fin: "finiteRectangle ?a" "finiteRectangle ?b"
    by (simp_all add: finiteRectangle_def)
  have ab: "union_rect (Some ?a) (Some ?b) None = Inr ?r"
    and ba: "union_rect (Some ?b) (Some ?a) None = Inr ?r"
    by (simp_all add: union_rect_def Let_def BoundingRectangle_def Math_min_def Math_max_def)
  from union_commutative [of ?a ?b None None] fin
  have "equals (Some (0, ?r)) (Some (1, ?r))"
    unfolding ab ba by auto
  with fin ab ba show ?thesis by simp
qed

text \<open>
  The claim for every two rectangles fails, and on rectangles without \<^verbatim>\<open>NaN\<close>: when both
  have \<^verbatim>\<open>x = Infinity\<close>, the width of their union is \<^verbatim>\<open>Infinity - Infinity\<close>, which is
  \<^verbatim>\<open>NaN\<close> in both orders, and \<^verbatim>\<open>equals\<close> of the two results, which are two objects, is
  false.
\<close>

theorem union_equals_counterexample:
  "union_rect
     (Some \<lparr>boundingRectangle.x = Infinity, y = Finite 0, width = Finite 1, height = Finite 1\<rparr>)
     (Some \<lparr>boundingRectangle.x = Infinity, y = Finite 0, width = Finite 2, height = Finite 2\<rparr>)
     None =
     Inr \<lparr>boundingRectangle.x = Infinity, y = Finite 0, width = NaN, height = Finite 2\<rparr> \<and>
   union_rect
     (Some \<lparr>boundingRectangle.x = Infinity, y = Finite 0, width = Finite 2, height = Finite 2\<rparr>)
     (Some \<lparr>boundingRectangle.x = Infinity, y = Finite 0, width = Finite 1, height = Finite 1\<rparr>)
     None =
     Inr \<lparr>boundingRectangle.x = Infinity, y = Finite 0, width = NaN, height = Finite 2\<rparr> \<and>
   \<not> equals
     (Some (0, \<lparr>boundingRectangle.x = Infinity, y = Finite 0, width = NaN, height = Finite 2\<rparr>))
     (Some (1, \<lparr>boundingRectangle.x = Infinity, y = Finite 0, width = NaN, height = Finite 2\<rparr>))"
  by (simp add: union_rect_def Let_def BoundingRectangle_def Math_min_def Math_max_def
      equals_def strictEquals_def)

section \<open>Properties of DynamicExternalDocument\<close>

lemma defaultValue_polling:
  "defaultValue (map_option Some a) b = (case a of Some r \<Rightarrow> Some r | None \<Rightarrow> b)"
  by (simp add: defaultValue_def split: option.splits)

text \<open>
  C1. When the source entity has an external document, \<^verbatim>\<open>mergeProperties\<close> leaves the
  target with a document whose \<^verbatim>\<open>polling\<close> is the target's own when it had one and the
  source's otherwise; every other field of the target's document (\<^verbatim>\<open>scope\<close>,
  \<^verbatim>\<open>refreshInterval\<close>, \<^verbatim>\<open>eventsource\<close>, \<^verbatim>\<open>eventname\<close>, \<^verbatim>\<open>show\<close>) is what it was, or absent
  when the document is new, and so is the rest of the target; nothing of the source but
  the \<^verbatim>\<open>polling\<close> of its document has any influence on the result; and an entity merged
  into itself is unchanged.
\<close>

theorem mergeProperties_polling_only:
  assumes "dynamicObject.external source = Some sdoc"
  shows "\<exists>tdoc. dynamicObject.external (mergeProperties target source) = Some tdoc
      \<and> document.polling tdoc =
          (case document.polling (externalOrNew (dynamicObject.external target)) of
             Some r \<Rightarrow> Some r
           | None \<Rightarrow> document.polling sdoc)
      \<and> document.scope tdoc = document.scope (externalOrNew (dynamicObject.external target))
      \<and> document.refreshInterval tdoc =
          document.refreshInterval (externalOrNew (dynamicObject.external target))
      \<and> document.eventsource tdoc =
          document.eventsource (externalOrNew (dynamicObject.external target))
      \<and> document.eventname tdoc =
          document.eventname (externalOrNew (dynamicObject.external target))
      \<and> show' tdoc = show' (externalOrNew (dynamicObject.external target))
      \<and> dynamicObject.more (mergeProperties target source) = dynamicObject.more target
      \<and> (\<forall>source' sdoc'.
            dynamicObject.external source' = Some sdoc' \<and>
            document.polling sdoc' = document.polling sdoc
            \<longrightarrow> mergeProperties target source' = mergeProperties target source)
      \<and> mergeProperties source source = source"
  using assms
  by (simp add: mergeProperties_def Let_def defaultValue_polling externalOrNew_def
      split: option.splits)

theorem mergeProperties_polling_only_witness:
  "dynamicObject.external \<lparr>dynamicObject.external = Some (DynamicExternalDocument\<lparr>document.polling := Some 0, document.scope := Some ''A''\<rparr>)\<rparr>
     = Some (DynamicExternalDocument\<lparr>document.polling := Some 0, document.scope := Some ''A''\<rparr>) \<and>
   dynamicObject.external
     (mergeProperties \<lparr>dynamicObject.external = None\<rparr>
        \<lparr>dynamicObject.external = Some (DynamicExternalDocument\<lparr>document.polling := Some 0, document.scope := Some ''A''\<rparr>)\<rparr>)
     = Some (DynamicExternalDocument\<lparr>document.polling := Some 0\<rparr>)"
  using mergeProperties_polling_only
    [of "\<lparr>dynamicObject.external = Some (DynamicExternalDocument\<lparr>document.polling := Some 0, document.scope := Some ''A''\<rparr>)\<rparr>"
        "DynamicExternalDocument\<lparr>document.polling := Some 0, document.scope := Some ''A''\<rparr>"
        "\<lparr>dynamicObject.external = None\<rparr>"]
  by (auto simp: externalOrNew_def DynamicExternalDocument_def)

text \<open>
  C7. In every state of the entity, \<^verbatim>\<open>undefineProperties\<close> leaves it without external
  document and with its other attributes as they were; there is no error case.
\<close>

theorem undefineProperties_clears:
  "dynamicObject.external (undefineProperties dynamicObject) = None \<and>
   dynamicObject.more (undefineProperties dynamicObject) = dynamicObject.more dynamicObject"
  by (simp add: undefineProperties_def)

subsection \<open>What a call does to the fields and to the store\<close>

lemma pollingBranch_fields:
  assumes "pollingBranch c st ext upd rawP rawR iv = ((st', ext'), out)"
  shows "document.scope ext' = document.scope ext"
    and "document.eventsource ext' = document.eventsource ext"
    and "document.eventname ext' = document.eventname ext"
    and "show' ext' = show' ext"
    and "document.polling ext' =
           Some (case document.polling ext of Some r \<Rightarrow> r | None \<Rightarrow> allocated st)"
    and "document.refreshInterval ext = Some r \<Longrightarrow> document.refreshInterval ext' = Some r"
  using assms
  by (auto simp: pollingBranch_def newProperty_def feed_def split: option.splits prod.splits)

lemma eventsourceBranch_fields:
  assumes "eventsourceBranch c st ext upd rawE rawN iv = ((st', ext'), out)"
  shows "document.scope ext' = document.scope ext"
    and "document.polling ext' = document.polling ext"
    and "document.refreshInterval ext' = document.refreshInterval ext"
    and "show' ext' = show' ext"
    and "document.eventsource ext' =
           Some (case document.eventsource ext of Some r \<Rightarrow> r | None \<Rightarrow> allocated st)"
    and "document.eventname ext = Some r \<Longrightarrow> document.eventname ext' = Some r"
  using assms
  by (auto simp: eventsourceBranch_def newProperty_def feed_def split: option.splits prod.splits)

lemma pollingBranch_store:
  assumes "pollingBranch c st ext upd rawP rawR iv = ((st', ext'), out)"
    and "r < allocated st" and "document.polling ext \<noteq> Some r"
  shows "properties st' r = properties st r"
  using assms
  by (auto simp: pollingBranch_def newProperty_def feed_def split: option.splits prod.splits)

lemma eventsourceBranch_store:
  assumes "eventsourceBranch c st ext upd rawE rawN iv = ((st', ext'), out)"
    and "r < allocated st" and "document.eventsource ext \<noteq> Some r"
  shows "properties st' r = properties st r"
  using assms
  by (auto simp: eventsourceBranch_def newProperty_def feed_def split: option.splits prod.splits)

lemma pollingBranch_fed:
  assumes "pollingBranch c st ext upd rawP rawR iv = ((st', ext'), out)"
    and "\<forall>r. document.polling ext = Some r \<longrightarrow> r < allocated st"
  shows "properties st' (case document.polling ext of Some r \<Rightarrow> r | None \<Rightarrow> allocated st) =
           fst (processCzmlIntervals c
                  (case document.polling ext of
                     Some r \<Rightarrow> properties st r
                   | None \<Rightarrow> DynamicProperty c CzmlString) rawP iv)"
  using assms
  by (auto simp: pollingBranch_def newProperty_def feed_def split: option.splits prod.splits)

lemma eventsourceBranch_fed:
  assumes "eventsourceBranch c st ext upd rawE rawN iv = ((st', ext'), out)"
    and "\<forall>r. document.eventsource ext = Some r \<longrightarrow> r < allocated st"
  shows "properties st' (case document.eventsource ext of Some r \<Rightarrow> r | None \<Rightarrow> allocated st) =
           fst (processCzmlIntervals c
                  (case document.eventsource ext of
                     Some r \<Rightarrow> properties st r
                   | None \<Rightarrow> DynamicProperty c CzmlString) rawE iv)"
  using assms
  by (auto simp: eventsourceBranch_def newProperty_def feed_def split: option.splits prod.splits)

lemma wellFormed_iff:
  "wellFormed st d =
     ((\<forall>r. document.polling d = Some r \<longrightarrow>
          r < allocated st \<and> show' d \<noteq> Some r \<and> document.refreshInterval d \<noteq> Some r \<and>
          document.eventsource d \<noteq> Some r \<and> document.eventname d \<noteq> Some r) \<and>
      (\<forall>r. show' d = Some r \<longrightarrow>
          r < allocated st \<and> document.refreshInterval d \<noteq> Some r \<and>
          document.eventsource d \<noteq> Some r \<and> document.eventname d \<noteq> Some r) \<and>
      (\<forall>r. document.refreshInterval d = Some r \<longrightarrow>
          r < allocated st \<and> document.eventsource d \<noteq> Some r \<and> document.eventname d \<noteq> Some r) \<and>
      (\<forall>r. document.eventsource d = Some r \<longrightarrow>
          r < allocated st \<and> document.eventname d \<noteq> Some r) \<and>
      (\<forall>r. document.eventname d = Some r \<longrightarrow> r < allocated st))"
  by (auto simp: wellFormed_def propertyRefs_def split: option.splits)

lemma wellFormed_new: "wellFormed st DynamicExternalDocument"
  by (simp add: wellFormed_def propertyRefs_def DynamicExternalDocument_def)

lemma wellFormed_scope: "wellFormed st (d\<lparr>document.scope := s\<rparr>) = wellFormed st d"
  by (simp add: wellFormed_def propertyRefs_def)

lemma pollingBranch_wellFormed:
  assumes "pollingBranch c st ext upd rawP rawR iv = ((st', ext'), out)"
    and "wellFormed st ext"
  shows "wellFormed st' ext'"
  using assms unfolding wellFormed_iff
  by (auto simp: pollingBranch_def newProperty_def feed_def split: option.splits prod.splits)

lemma eventsourceBranch_wellFormed:
  assumes "eventsourceBranch c st ext upd rawE rawN iv = ((st', ext'), out)"
    and "wellFormed st ext"
  shows "wellFormed st' ext'"
  using assms unfolding wellFormed_iff
  by (auto simp: eventsourceBranch_def newProperty_def feed_def split: option.splits prod.splits)

lemma assignScope_fields:
  "document.polling (fst (assignScope ed d u)) = document.polling d"
  "show' (fst (assignScope ed d u)) = show' d"
  "document.refreshInterval (fst (assignScope ed d u)) = document.refreshInterval d"
  "document.eventsource (fst (assignScope ed d u)) = document.eventsource d"
  "document.eventname (fst (assignScope ed d u)) = document.eventname d"
  "document.scope (fst (assignScope ed d u)) =
     (case document.scope d of Some a \<Rightarrow> Some a | None \<Rightarrow> externalData.scope ed)"
  by (auto simp: assignScope_def split: option.splits)

lemma assignScope_wellFormed: "wellFormed st (fst (assignScope ed d u)) = wellFormed st d"
  by (simp add: assignScope_def wellFormed_scope)

text \<open>The four ways through a call on a packet that has an \<^verbatim>\<open>external\<close> sub-structure.\<close>

lemma processCzmlPacket_cases [consumes 1, case_names threw polling eventsource neither]:
  assumes "packet.external pkt = Some ed"
  obtains
    e where "resolveInterval c ed = Inl e"
      and "processCzmlPacket c st obj pkt =
             ((st, obj\<lparr>dynamicObject.external := Some (externalOrNew (dynamicObject.external obj))\<rparr>),
              Inl e)"
  | iv rawP st' ext' out where "resolveInterval c ed = Inr iv"
      and "externalData.polling ed = Some rawP"
      and "pollingBranch c st
             (fst (assignScope ed (externalOrNew (dynamicObject.external obj))
                     (dynamicObject.external obj = None)))
             (snd (assignScope ed (externalOrNew (dynamicObject.external obj))
                     (dynamicObject.external obj = None)))
             rawP (externalData.refreshInterval ed) iv = ((st', ext'), out)"
      and "processCzmlPacket c st obj pkt =
             ((st', obj\<lparr>dynamicObject.external := Some ext'\<rparr>), out)"
  | iv rawE st' ext' out where "resolveInterval c ed = Inr iv"
      and "externalData.polling ed = None"
      and "externalData.eventsource ed = Some rawE"
      and "eventsourceBranch c st
             (fst (assignScope ed (externalOrNew (dynamicObject.external obj))
                     (dynamicObject.external obj = None)))
             (snd (assignScope ed (externalOrNew (dynamicObject.external obj))
                     (dynamicObject.external obj = None)))
             rawE (externalData.eventname ed) iv = ((st', ext'), out)"
      and "processCzmlPacket c st obj pkt =
             ((st', obj\<lparr>dynamicObject.external := Some ext'\<rparr>), out)"
  | iv where "resolveInterval c ed = Inr iv"
      and "externalData.polling ed = None"
      and "externalData.eventsource ed = None"
      and "processCzmlPacket c st obj pkt =
             ((st, obj\<lparr>dynamicObject.external :=
                       Some (fst (assignScope ed (externalOrNew (dynamicObject.external obj))
                                    (dynamicObject.external obj = None)))\<rparr>),
              Inr (snd (assignScope ed (externalOrNew (dynamicObject.external obj))
                          (dynamicObject.external obj = None))))"
proof (cases "resolveInterval c ed")
  case (Inl e)
  with assms have "processCzmlPacket c st obj pkt =
      ((st, obj\<lparr>dynamicObject.external := Some (externalOrNew (dynamicObject.external obj))\<rparr>),
       Inl e)"
    by (simp add: processCzmlPacket_def Let_def)
  with Inl show ?thesis by (rule that(1))
next
  case (Inr iv)
  show ?thesis
  proof (cases "externalData.polling ed")
    case (Some rawP)
    obtain st' ext' out where b: "pollingBranch c st
             (fst (assignScope ed (externalOrNew (dynamicObject.external obj))
                     (dynamicObject.external obj = None)))
             (snd (assignScope ed (externalOrNew (dynamicObject.external obj))
                     (dynamicObject.external obj = None)))
             rawP (externalData.refreshInterval ed) iv = ((st', ext'), out)"
      by (metis surj_pair)
    with assms Inr Some have "processCzmlPacket c st obj pkt =
             ((st', obj\<lparr>dynamicObject.external := Some ext'\<rparr>), out)"
      by (simp add: processCzmlPacket_def Let_def case_prod_beta)
    with Inr Some b show ?thesis by (rule that(2))
  next
    case None
    show ?thesis
    proof (cases "externalData.eventsource ed")
      case (Some rawE)
      obtain st' ext' out where b: "eventsourceBranch c st
             (fst (assignScope ed (externalOrNew (dynamicObject.external obj))
                     (dynamicObject.external obj = None)))
             (snd (assignScope ed (externalOrNew (dynamicObject.external obj))
                     (dynamicObject.external obj = None)))
             rawE (externalData.eventname ed) iv = ((st', ext'), out)"
        by (metis surj_pair)
      with assms Inr None Some have "processCzmlPacket c st obj pkt =
             ((st', obj\<lparr>dynamicObject.external := Some ext'\<rparr>), out)"
        by (simp add: processCzmlPacket_def Let_def case_prod_beta)
      with Inr None Some b show ?thesis by (rule that(3))
    next
      case none: None
      with assms Inr None have "processCzmlPacket c st obj pkt =
             ((st, obj\<lparr>dynamicObject.external :=
                       Some (fst (assignScope ed (externalOrNew (dynamicObject.external obj))
                                    (dynamicObject.external obj = None)))\<rparr>),
              Inr (snd (assignScope ed (externalOrNew (dynamicObject.external obj))
                          (dynamicObject.external obj = None))))"
        by (simp add: processCzmlPacket_def Let_def case_prod_beta)
      with Inr None none show ?thesis by (rule that(4))
    qed
  qed
qed

text \<open>
  One call on an entity that has a document: the scope and the \<^verbatim>\<open>refreshInterval\<close> field
  stay when they are set, and on a well-formed document the \<^verbatim>\<open>refreshInterval\<close> property
  itself is not touched.
\<close>

lemma processCzmlPacket_keeps:
  assumes run: "processCzmlPacket c st obj pkt = ((st', obj'), out)"
    and d: "dynamicObject.external obj = Some d"
  shows "\<exists>d'. dynamicObject.external obj' = Some d' \<and>
           (\<forall>a. document.scope d = Some a \<longrightarrow> document.scope d' = Some a) \<and>
           (\<forall>r. document.refreshInterval d = Some r \<longrightarrow> document.refreshInterval d' = Some r) \<and>
           (wellFormed st d \<longrightarrow>
              wellFormed st' d' \<and>
              (\<forall>r. document.refreshInterval d = Some r \<longrightarrow> properties st' r = properties st r))"
proof (cases "packet.external pkt")
  case None
  with run d show ?thesis by (simp add: processCzmlPacket_def)
next
  case (Some ed)
  have d0: "externalOrNew (dynamicObject.external obj) = d"
    using d by (simp add: externalOrNew_def)
  from Some show ?thesis
  proof (cases rule: processCzmlPacket_cases [where c = c and st = st and obj = obj])
    case (threw e)
    with run d0 show ?thesis by auto
  next
    case (polling iv rawP st1 ext1 out1)
    from polling(4) run have eq: "st' = st1" "obj' = obj\<lparr>dynamicObject.external := Some ext1\<rparr>"
      by simp_all
    note b = polling(3) [unfolded d0]
    have "\<forall>a. document.scope d = Some a \<longrightarrow> document.scope ext1 = Some a"
      using pollingBranch_fields(1) [OF b] by (simp add: assignScope_fields)
    moreover have "\<forall>r. document.refreshInterval d = Some r \<longrightarrow> document.refreshInterval ext1 = Some r"
      using pollingBranch_fields(6) [OF b] by (simp add: assignScope_fields)
    moreover have "wellFormed st d \<longrightarrow> wellFormed st1 ext1"
      using pollingBranch_wellFormed [OF b] by (simp add: assignScope_wellFormed)
    moreover have "wellFormed st d \<longrightarrow>
        (\<forall>r. document.refreshInterval d = Some r \<longrightarrow> properties st1 r = properties st r)"
    proof (intro impI allI)
      fix r assume wf: "wellFormed st d" and r: "document.refreshInterval d = Some r"
      from wf r have "r < allocated st" "document.polling d \<noteq> Some r"
        unfolding wellFormed_iff by auto
      then show "properties st1 r = properties st r"
        using pollingBranch_store [OF b, of r] by (simp add: assignScope_fields)
    qed
    ultimately show ?thesis using eq by simp
  next
    case (eventsource iv rawE st1 ext1 out1)
    from eventsource(5) run have eq: "st' = st1" "obj' = obj\<lparr>dynamicObject.external := Some ext1\<rparr>"
      by simp_all
    note b = eventsource(4) [unfolded d0]
    have "\<forall>a. document.scope d = Some a \<longrightarrow> document.scope ext1 = Some a"
      using eventsourceBranch_fields(1) [OF b] by (simp add: assignScope_fields)
    moreover have "\<forall>r. document.refreshInterval d = Some r \<longrightarrow> document.refreshInterval ext1 = Some r"
      using eventsourceBranch_fields(3) [OF b] by (simp add: assignScope_fields)
    moreover have "wellFormed st d \<longrightarrow> wellFormed st1 ext1"
      using eventsourceBranch_wellFormed [OF b] by (simp add: assignScope_wellFormed)
    moreover have "wellFormed st d \<longrightarrow>
        (\<forall>r. document.refreshInterval d = Some r \<longrightarrow> properties st1 r = properties st r)"
    proof (intro impI allI)
      fix r assume wf: "wellFormed st d" and r: "document.refreshInterval d = Some r"
      from wf r have "r < allocated st" "document.eventsource d \<noteq> Some r"
        unfolding wellFormed_iff by auto
      then show "properties st1 r = properties st r"
        using eventsourceBranch_store [OF b, of r] by (simp add: assignScope_fields)
    qed
    ultimately show ?thesis using eq by simp
  next
    case (neither iv)
    with run d0 show ?thesis
      by (auto simp: assignScope_fields assignScope_wellFormed)
  qed
qed

lemma processCzmlPackets_keeps:
  assumes "dynamicObject.external obj = Some d"
  shows "\<exists>d'. dynamicObject.external (snd (processCzmlPackets c st obj pkts)) = Some d' \<and>
           (\<forall>a. document.scope d = Some a \<longrightarrow> document.scope d' = Some a) \<and>
           (\<forall>r. document.refreshInterval d = Some r \<longrightarrow> document.refreshInterval d' = Some r) \<and>
           (wellFormed st d \<longrightarrow>
              wellFormed (fst (processCzmlPackets c st obj pkts)) d' \<and>
              (\<forall>r. document.refreshInterval d = Some r \<longrightarrow>
                   properties (fst (processCzmlPackets c st obj pkts)) r = properties st r))"
  using assms
proof (induction pkts arbitrary: st obj d)
  case Nil
  then show ?case by simp
next
  case (Cons pkt pkts)
  obtain st1 obj1 out1 where run: "processCzmlPacket c st obj pkt = ((st1, obj1), out1)"
    by (metis surj_pair)
  from processCzmlPacket_keeps [OF run Cons.prems]
  obtain d1 where d1: "dynamicObject.external obj1 = Some d1"
    and k1: "\<forall>a. document.scope d = Some a \<longrightarrow> document.scope d1 = Some a"
      "\<forall>r. document.refreshInterval d = Some r \<longrightarrow> document.refreshInterval d1 = Some r"
      "wellFormed st d \<longrightarrow> wellFormed st1 d1 \<and>
         (\<forall>r. document.refreshInterval d = Some r \<longrightarrow> properties st1 r = properties st r)"
    by blast
  from Cons.IH [OF d1, of st1]
  obtain d2 where d2: "dynamicObject.external (snd (processCzmlPackets c st1 obj1 pkts)) = Some d2"
    and k2: "\<forall>a. document.scope d1 = Some a \<longrightarrow> document.scope d2 = Some a"
      "\<forall>r. document.refreshInterval d1 = Some r \<longrightarrow> document.refreshInterval d2 = Some r"
      "wellFormed st1 d1 \<longrightarrow> wellFormed (fst (processCzmlPackets c st1 obj1 pkts)) d2 \<and>
         (\<forall>r. document.refreshInterval d1 = Some r \<longrightarrow>
              properties (fst (processCzmlPackets c st1 obj1 pkts)) r = properties st1 r)"
    by blast
  have step: "processCzmlPackets c st obj (pkt # pkts) = processCzmlPackets c st1 obj1 pkts"
    using run by simp
  show ?case
    unfolding step using d2 k1 k2 by (intro exI [of _ d2]) auto
qed

text \<open>
  Well-formedness is an invariant: it holds of the document a call starts from when the
  entity has none, every call keeps it, and so do the calls for a sequence of packets.
  \<^verbatim>\<open>mergeProperties\<close> keeps it when the polling property of the source is an existing
  object that the target holds in no other field.
\<close>

lemma processCzmlPacket_wellFormed:
  assumes run: "processCzmlPacket c st obj pkt = ((st', obj'), out)"
    and wf: "wellFormed st (externalOrNew (dynamicObject.external obj))"
  shows "wellFormed st' (externalOrNew (dynamicObject.external obj'))"
proof (cases "packet.external pkt")
  case None
  with run wf show ?thesis by (simp add: processCzmlPacket_def)
next
  case (Some ed)
  then show ?thesis
  proof (cases rule: processCzmlPacket_cases [where c = c and st = st and obj = obj])
    case (threw e)
    with run wf show ?thesis by (auto simp: externalOrNew_def)
  next
    case (polling iv rawP st1 ext1 out1)
    from pollingBranch_wellFormed [OF polling(3)] wf have "wellFormed st1 ext1"
      by (simp add: assignScope_wellFormed)
    with polling(4) run show ?thesis by (auto simp: externalOrNew_def)
  next
    case (eventsource iv rawE st1 ext1 out1)
    from eventsourceBranch_wellFormed [OF eventsource(4)] wf have "wellFormed st1 ext1"
      by (simp add: assignScope_wellFormed)
    with eventsource(5) run show ?thesis by (auto simp: externalOrNew_def)
  next
    case (neither iv)
    with run wf show ?thesis by (auto simp: externalOrNew_def assignScope_wellFormed)
  qed
qed

lemma processCzmlPackets_wellFormed:
  assumes "wellFormed st (externalOrNew (dynamicObject.external obj))"
  shows "wellFormed (fst (processCzmlPackets c st obj pkts))
           (externalOrNew (dynamicObject.external (snd (processCzmlPackets c st obj pkts))))"
  using assms
proof (induction pkts arbitrary: st obj)
  case Nil
  then show ?case by simp
next
  case (Cons pkt pkts)
  obtain st1 obj1 out1 where run: "processCzmlPacket c st obj pkt = ((st1, obj1), out1)"
    by (metis surj_pair)
  from processCzmlPacket_wellFormed [OF run Cons.prems]
  have "wellFormed st1 (externalOrNew (dynamicObject.external obj1))" .
  from Cons.IH [OF this] run show ?case by simp
qed

lemma processCzmlPackets_wellFormed_from_nothing:
  assumes "dynamicObject.external obj = None"
  shows "wellFormed (fst (processCzmlPackets c st obj pkts))
           (externalOrNew (dynamicObject.external (snd (processCzmlPackets c st obj pkts))))"
  using assms by (intro processCzmlPackets_wellFormed) (simp add: externalOrNew_def wellFormed_new)

lemma mergeProperties_wellFormed:
  assumes "wellFormed st (externalOrNew (dynamicObject.external target))"
    and "\<forall>sdoc r. dynamicObject.external source = Some sdoc \<and> document.polling sdoc = Some r \<longrightarrow>
           r < allocated st \<and>
           list_all (\<lambda>q. q \<noteq> r) (propertyRefs (externalOrNew (dynamicObject.external target)))"
  shows "wellFormed st (externalOrNew (dynamicObject.external (mergeProperties target source)))"
proof (cases "dynamicObject.external source")
  case None
  with assms(1) show ?thesis by (simp add: mergeProperties_def)
next
  case (Some sdoc)
  show ?thesis
  proof (cases "document.polling (externalOrNew (dynamicObject.external target))")
    case polled: (Some r)
    have same: "(externalOrNew (dynamicObject.external target))\<lparr>document.polling := Some r\<rparr> =
            externalOrNew (dynamicObject.external target)"
      by (simp add: polled [symmetric])
    have new: "externalOrNew (Some d) = d" for d
      by (simp add: externalOrNew_def)
    from Some assms(1) show ?thesis
      by (simp add: mergeProperties_def Let_def defaultValue_polling polled same new)
  next
    case None
    with Some assms show ?thesis
      unfolding wellFormed_def propertyRefs_def
      by (auto simp: mergeProperties_def Let_def defaultValue_polling externalOrNew_def
          list_all_iff split: option.splits)
  qed
qed

lemma pollingBranch_creates_refreshInterval:
  assumes "pollingBranch c st ext upd rawP (Some rawR) iv = ((st', ext'), out)"
    and "document.refreshInterval ext = None"
    and "snd (processCzmlIntervals c
                (case document.polling ext of
                   Some q \<Rightarrow> properties st q
                 | None \<Rightarrow> DynamicProperty c CzmlString) rawP iv) = None"
  shows "document.refreshInterval ext' =
           Some (case document.polling ext of Some q \<Rightarrow> allocated st | None \<Rightarrow> Suc (allocated st))"
    and "properties st'
           (case document.polling ext of Some q \<Rightarrow> allocated st | None \<Rightarrow> Suc (allocated st)) =
         fst (processCzmlIntervals c (DynamicProperty c CzmlNumber) rawR iv)"
    and "out = (case snd (processCzmlIntervals c (DynamicProperty c CzmlNumber) rawR iv) of
                  None \<Rightarrow> Inr True
                | Some e \<Rightarrow> Inl e)"
  using assms
  by (auto simp: pollingBranch_def newProperty_def feed_def split: option.splits prod.splits)

lemma eventsourceBranch_created:
  assumes "eventsourceBranch c st ext upd rawE rawN iv = ((st', ext'), Inr b)"
    and "document.eventsource ext = None"
  shows b
  using assms
  by (auto simp: eventsourceBranch_def newProperty_def feed_def split: option.splits prod.splits)

lemmas run_example =
  processCzmlPacket_def assignScope_def externalOrNew_def resolveInterval_def
  pollingBranch_def eventsourceBranch_def newProperty_def feed_def
  exampleCollaborators_def emptyStore_def noExternalData_def DynamicExternalDocument_def

text \<open>
  C6. When the packet has no \<^verbatim>\<open>external\<close> sub-structure, \<^verbatim>\<open>processCzmlPacket\<close> returns
  \<^verbatim>\<open>false\<close>, throws nothing, and leaves the entity and the store as they were: no
  document is created.
\<close>

theorem processCzmlPacket_absent_external:
  "packet.external pkt = None \<Longrightarrow> processCzmlPacket c st dynamicObject pkt = ((st, dynamicObject), Inr False)"
  by (simp add: processCzmlPacket_def)

theorem processCzmlPacket_absent_external_witness:
  "packet.external \<lparr>packet.external = None\<rparr> = (None :: string externalData option) \<and>
   processCzmlPacket exampleCollaborators emptyStore \<lparr>dynamicObject.external = None\<rparr>
       \<lparr>packet.external = None\<rparr>
     = ((emptyStore, \<lparr>dynamicObject.external = None\<rparr>), Inr False)"
  using processCzmlPacket_absent_external
    [of "\<lparr>packet.external = None\<rparr>" exampleCollaborators emptyStore
        "\<lparr>dynamicObject.external = None\<rparr>"]
  by simp

text \<open>
  C2. The scope of an entity's document is written once. When the document has a scope,
  a call of \<^verbatim>\<open>processCzmlPacket\<close> with any packet leaves it as it is, whether the call
  returns or throws, and so do the calls for any sequence of later packets. When the
  document has no scope (or the entity no document), a packet with scope \<open>a\<close> whose
  interval is absent or well-formed sets it, and it is still \<open>a\<close> after any later packets,
  whatever scope they carry.
\<close>

theorem scope_write_once:
  "(dynamicObject.external obj = Some d \<and> document.scope d = Some a \<longrightarrow>
      (\<exists>d'. dynamicObject.external (snd (fst (processCzmlPacket c st obj pkt))) = Some d' \<and>
            document.scope d' = Some a) \<and>
      (\<exists>d'. dynamicObject.external (snd (processCzmlPackets c st obj pkts)) = Some d' \<and>
            document.scope d' = Some a)) \<and>
   (document.scope (externalOrNew (dynamicObject.external obj)) = None \<and>
    packet.external pktA = Some edA \<and> externalData.scope edA = Some a \<and>
    resolveInterval c edA = Inr iv \<longrightarrow>
      (\<exists>d'. dynamicObject.external (snd (processCzmlPackets c st obj (pktA # pkts))) = Some d' \<and>
            document.scope d' = Some a))"
proof (intro conjI impI)
  assume h: "dynamicObject.external obj = Some d \<and> document.scope d = Some a"
  obtain st1 obj1 out1 where run: "processCzmlPacket c st obj pkt = ((st1, obj1), out1)"
    by (metis surj_pair)
  from processCzmlPacket_keeps [OF run] h
  show "\<exists>d'. dynamicObject.external (snd (fst (processCzmlPacket c st obj pkt))) = Some d' \<and>
            document.scope d' = Some a"
    unfolding run by fastforce
  from processCzmlPackets_keeps [of obj d c st pkts] h
  show "\<exists>d'. dynamicObject.external (snd (processCzmlPackets c st obj pkts)) = Some d' \<and>
            document.scope d' = Some a"
    by fastforce
next
  assume h: "document.scope (externalOrNew (dynamicObject.external obj)) = None \<and>
    packet.external pktA = Some edA \<and> externalData.scope edA = Some a \<and>
    resolveInterval c edA = Inr iv"
  obtain st1 obj1 out1 where run: "processCzmlPacket c st obj pktA = ((st1, obj1), out1)"
    by (metis surj_pair)
  from h have "packet.external pktA = Some edA" by simp
  then have "\<exists>d1. dynamicObject.external obj1 = Some d1 \<and> document.scope d1 = Some a"
  proof (cases rule: processCzmlPacket_cases [where c = c and st = st and obj = obj])
    case (threw e)
    with h show ?thesis by simp
  next
    case (polling iv' rawP st2 ext2 out2)
    with run h pollingBranch_fields(1) [OF polling(3)] show ?thesis
      by (auto simp: assignScope_fields)
  next
    case (eventsource iv' rawE st2 ext2 out2)
    with run h eventsourceBranch_fields(1) [OF eventsource(4)] show ?thesis
      by (auto simp: assignScope_fields)
  next
    case (neither iv')
    with run h show ?thesis by (auto simp: assignScope_fields)
  qed
  then obtain d1 where d1: "dynamicObject.external obj1 = Some d1" "document.scope d1 = Some a"
    by blast
  have step: "processCzmlPackets c st obj (pktA # pkts) = processCzmlPackets c st1 obj1 pkts"
    using run by simp
  from processCzmlPackets_keeps [OF d1(1), of c st1 pkts] d1(2)
  show "\<exists>d'. dynamicObject.external (snd (processCzmlPackets c st obj (pktA # pkts))) = Some d' \<and>
            document.scope d' = Some a"
    unfolding step by fastforce
qed

theorem scope_write_once_witness:
  "document.scope (externalOrNew (dynamicObject.external \<lparr>dynamicObject.external = None\<rparr>)) = None \<and>
   resolveInterval exampleCollaborators (noExternalData\<lparr>externalData.scope := Some ''A''\<rparr>) = Inr None \<and>
   (\<exists>d'. dynamicObject.external
           (snd (processCzmlPackets exampleCollaborators emptyStore
                   \<lparr>dynamicObject.external = None\<rparr>
                   [\<lparr>packet.external = Some (noExternalData\<lparr>externalData.scope := Some ''A''\<rparr>)\<rparr>,
                    \<lparr>packet.external = Some (noExternalData\<lparr>externalData.scope := Some ''B''\<rparr>)\<rparr>]))
           = Some d' \<and>
         document.scope d' = Some ''A'')"
  using scope_write_once
    [where obj = "\<lparr>dynamicObject.external = None\<rparr>" and a = "''A''"
       and c = exampleCollaborators and st = emptyStore
       and pktA = "\<lparr>packet.external = Some (noExternalData\<lparr>externalData.scope := Some ''A''\<rparr>)\<rparr>"
       and edA = "noExternalData\<lparr>externalData.scope := Some ''A''\<rparr>" and iv = None
       and pkts = "[\<lparr>packet.external = Some (noExternalData\<lparr>externalData.scope := Some ''B''\<rparr>)\<rparr>]"]
  by (simp add: externalOrNew_def resolveInterval_def noExternalData_def
      DynamicExternalDocument_def)

text \<open>
  C3. When the packet declares both \<^verbatim>\<open>polling\<close> and \<^verbatim>\<open>eventsource\<close>, only the polling
  branch is taken. Whatever the packet carries as \<^verbatim>\<open>eventsource\<close> and \<^verbatim>\<open>eventname\<close>, the
  call leaves the same store and entity and has the same outcome; the \<^verbatim>\<open>eventsource\<close> and
  \<^verbatim>\<open>eventname\<close> fields of the document are what they were before the call (absent when
  the document is new); and when the interval of the packet is absent or well-formed, the
  \<^verbatim>\<open>polling\<close> field holds the document's polling property, a new one of type string when
  it had none, and on a well-formed document that property is the result of feeding it the
  packet's polling fragments, while the properties in \<^verbatim>\<open>eventsource\<close> and \<^verbatim>\<open>eventname\<close>
  are untouched.
\<close>

theorem polling_precedence:
  assumes "packet.external pkt = Some ed"
    and "externalData.polling ed = Some rawP"
    and "externalData.eventsource ed = Some rawE"
    and "processCzmlPacket c st obj pkt = ((st', obj'), out)"
  shows "(\<forall>es en.
            processCzmlPacket c st obj
              (pkt\<lparr>packet.external :=
                     Some (ed\<lparr>externalData.eventsource := es, externalData.eventname := en\<rparr>)\<rparr>)
            = ((st', obj'), out)) \<and>
         (\<exists>d'. dynamicObject.external obj' = Some d' \<and>
            document.eventsource d' =
              document.eventsource (externalOrNew (dynamicObject.external obj)) \<and>
            document.eventname d' =
              document.eventname (externalOrNew (dynamicObject.external obj)) \<and>
            (\<forall>iv. resolveInterval c ed = Inr iv \<longrightarrow>
               document.polling d' =
                 Some (case document.polling (externalOrNew (dynamicObject.external obj)) of
                         Some r \<Rightarrow> r
                       | None \<Rightarrow> allocated st) \<and>
               (wellFormed st (externalOrNew (dynamicObject.external obj)) \<longrightarrow>
                  properties st'
                    (case document.polling (externalOrNew (dynamicObject.external obj)) of
                       Some r \<Rightarrow> r
                     | None \<Rightarrow> allocated st) =
                  fst (processCzmlIntervals c
                         (case document.polling (externalOrNew (dynamicObject.external obj)) of
                            Some r \<Rightarrow> properties st r
                          | None \<Rightarrow> DynamicProperty c CzmlString) rawP iv) \<and>
                  (\<forall>r. document.eventsource (externalOrNew (dynamicObject.external obj)) = Some r \<or>
                       document.eventname (externalOrNew (dynamicObject.external obj)) = Some r
                       \<longrightarrow> properties st' r = properties st r))))"
proof
  have "processCzmlPacket c st obj
          (pkt\<lparr>packet.external :=
                 Some (ed\<lparr>externalData.eventsource := es, externalData.eventname := en\<rparr>)\<rparr>)
        = processCzmlPacket c st obj pkt" for es en
    using assms(1,2)
    by (simp add: processCzmlPacket_def resolveInterval_def assignScope_def Let_def
        cong: sum.case_cong prod.case_cong)
  with assms(4)
  show "\<forall>es en.
            processCzmlPacket c st obj
              (pkt\<lparr>packet.external :=
                     Some (ed\<lparr>externalData.eventsource := es, externalData.eventname := en\<rparr>)\<rparr>)
            = ((st', obj'), out)"
    by simp
next
  let ?d0 = "externalOrNew (dynamicObject.external obj)"
  let ?rP = "case document.polling ?d0 of Some r \<Rightarrow> r | None \<Rightarrow> allocated st"
  let ?pP = "case document.polling ?d0 of
               Some r \<Rightarrow> properties st r
             | None \<Rightarrow> DynamicProperty c CzmlString"
  let ?goal = "\<exists>d'. dynamicObject.external obj' = Some d' \<and>
            document.eventsource d' = document.eventsource ?d0 \<and>
            document.eventname d' = document.eventname ?d0 \<and>
            (\<forall>iv. resolveInterval c ed = Inr iv \<longrightarrow>
               document.polling d' = Some ?rP \<and>
               (wellFormed st ?d0 \<longrightarrow>
                  properties st' ?rP = fst (processCzmlIntervals c ?pP rawP iv) \<and>
                  (\<forall>r. document.eventsource ?d0 = Some r \<or> document.eventname ?d0 = Some r
                       \<longrightarrow> properties st' r = properties st r)))"
  from assms(1) have ?goal
  proof (cases rule: processCzmlPacket_cases [where c = c and st = st and obj = obj])
    case (threw e)
    with assms(4) show ?thesis by auto
  next
    case (polling iv rawP' st1 ext1 out1)
    from polling(4) assms(4)
    have eq: "st' = st1" "obj' = obj\<lparr>dynamicObject.external := Some ext1\<rparr>"
      by simp_all
    from polling(2) assms(2) have raw: "rawP' = rawP" by simp
    note b = polling(3) [unfolded raw]
    have f: "document.eventsource ext1 = document.eventsource ?d0"
      "document.eventname ext1 = document.eventname ?d0"
      "document.polling ext1 = Some ?rP"
      using pollingBranch_fields(2,3,5) [OF b] by (simp_all add: assignScope_fields)
    have s: "wellFormed st ?d0 \<longrightarrow>
               properties st1 ?rP = fst (processCzmlIntervals c ?pP rawP iv) \<and>
               (\<forall>r. document.eventsource ?d0 = Some r \<or> document.eventname ?d0 = Some r
                    \<longrightarrow> properties st1 r = properties st r)"
    proof (intro impI conjI allI)
      assume wf: "wellFormed st ?d0"
      then have "\<forall>r. document.polling ?d0 = Some r \<longrightarrow> r < allocated st"
        unfolding wellFormed_iff by blast
      then show "properties st1 ?rP = fst (processCzmlIntervals c ?pP rawP iv)"
        using pollingBranch_fed [OF b] by (simp add: assignScope_fields)
    next
      fix r
      assume wf: "wellFormed st ?d0"
        and r: "document.eventsource ?d0 = Some r \<or> document.eventname ?d0 = Some r"
      then have "r < allocated st" "document.polling ?d0 \<noteq> Some r"
        unfolding wellFormed_iff by auto
      then show "properties st1 r = properties st r"
        using pollingBranch_store [OF b, of r] by (simp add: assignScope_fields)
    qed
    from polling(1) f s show ?thesis unfolding eq by simp
  next
    case (eventsource iv rawE' st1 ext1 out1)
    with assms(2) show ?thesis by simp
  next
    case (neither iv)
    with assms(2) show ?thesis by simp
  qed
  then show ?goal .
qed

theorem polling_precedence_witness:
  "processCzmlPacket exampleCollaborators emptyStore \<lparr>dynamicObject.external = None\<rparr>
     \<lparr>packet.external = Some (noExternalData\<lparr>externalData.polling := Some ''url1'',
                                               externalData.eventsource := Some ''stream1''\<rparr>)\<rparr>
     = ((emptyStore\<lparr>properties := (properties emptyStore)(0 := (CzmlString, [(None, ''url1'')])),
                    allocated := 1\<rparr>,
         \<lparr>dynamicObject.external = Some (DynamicExternalDocument\<lparr>document.polling := Some 0\<rparr>)\<rparr>),
        Inr True) \<and>
   processCzmlPacket exampleCollaborators emptyStore \<lparr>dynamicObject.external = None\<rparr>
     \<lparr>packet.external = Some (noExternalData\<lparr>externalData.polling := Some ''url1''\<rparr>)\<rparr>
     = ((emptyStore\<lparr>properties := (properties emptyStore)(0 := (CzmlString, [(None, ''url1'')])),
                    allocated := 1\<rparr>,
         \<lparr>dynamicObject.external = Some (DynamicExternalDocument\<lparr>document.polling := Some 0\<rparr>)\<rparr>),
        Inr True)"
proof -
  let ?ed = "noExternalData\<lparr>externalData.polling := Some ''url1'',
                            externalData.eventsource := Some ''stream1''\<rparr>"
  let ?pkt = "\<lparr>packet.external = Some ?ed\<rparr>"
  let ?st = "emptyStore\<lparr>properties := (properties emptyStore)(0 := (CzmlString, [(None, ''url1'')])),
                       allocated := 1\<rparr>"
  let ?obj = "\<lparr>dynamicObject.external = Some (DynamicExternalDocument\<lparr>document.polling := Some 0\<rparr>)\<rparr>"
  have run: "processCzmlPacket exampleCollaborators emptyStore \<lparr>dynamicObject.external = None\<rparr> ?pkt
               = ((?st, ?obj), Inr True)"
    by (simp add: run_example)
  have "packet.external ?pkt = Some ?ed" "externalData.polling ?ed = Some ''url1''"
    "externalData.eventsource ?ed = Some ''stream1''"
    by simp_all
  from polling_precedence [OF this run]
  have "processCzmlPacket exampleCollaborators emptyStore \<lparr>dynamicObject.external = None\<rparr>
          (?pkt\<lparr>packet.external :=
                  Some (?ed\<lparr>externalData.eventsource := None, externalData.eventname := None\<rparr>)\<rparr>)
        = ((?st, ?obj), Inr True)"
    by blast
  then have "processCzmlPacket exampleCollaborators emptyStore \<lparr>dynamicObject.external = None\<rparr>
     \<lparr>packet.external = Some (noExternalData\<lparr>externalData.polling := Some ''url1''\<rparr>)\<rparr>
     = ((?st, ?obj), Inr True)"
    by (simp add: noExternalData_def)
  with run show ?thesis by simp
qed

text \<open>
  C4. Let the document of the entity already have a polling property. A later call with a
  packet that declares \<^verbatim>\<open>eventsource\<close> and no \<^verbatim>\<open>polling\<close>, and whose interval is absent or
  well-formed, leaves the document with that same \<^verbatim>\<open>polling\<close> and with an \<^verbatim>\<open>eventsource\<close>
  property: the one it had, or a new one of type string, in which case a call that
  returns returns \<^verbatim>\<open>true\<close>. That property is the result of feeding it the packet's
  fragments (when it is new, or the document is well-formed), and on a well-formed
  document the polling property is untouched. So both coexist on one document.
\<close>

theorem eventsource_after_polling:
  assumes "dynamicObject.external obj = Some d"
    and "document.polling d = Some rp"
    and "packet.external pkt = Some ed"
    and "externalData.polling ed = None"
    and "externalData.eventsource ed = Some rawE"
    and "resolveInterval c ed = Inr iv"
    and "processCzmlPacket c st obj pkt = ((st', obj'), out)"
  shows "\<exists>d'. dynamicObject.external obj' = Some d' \<and>
           document.polling d' = Some rp \<and>
           document.eventsource d' =
             Some (case document.eventsource d of Some r \<Rightarrow> r | None \<Rightarrow> allocated st) \<and>
           (document.eventsource d = None \<longrightarrow> (\<forall>b. out = Inr b \<longrightarrow> b)) \<and>
           (document.eventsource d = None \<or> wellFormed st d \<longrightarrow>
              properties st'
                (case document.eventsource d of Some r \<Rightarrow> r | None \<Rightarrow> allocated st) =
              fst (processCzmlIntervals c
                     (case document.eventsource d of
                        Some r \<Rightarrow> properties st r
                      | None \<Rightarrow> DynamicProperty c CzmlString) rawE iv)) \<and>
           (wellFormed st d \<longrightarrow> properties st' rp = properties st rp)"
proof -
  have d0: "externalOrNew (dynamicObject.external obj) = d"
    using assms(1) by (simp add: externalOrNew_def)
  from assms(3) show ?thesis
  proof (cases rule: processCzmlPacket_cases [where c = c and st = st and obj = obj])
    case (threw e)
    with assms(6) show ?thesis by simp
  next
    case (polling iv' rawP st1 ext1 out1)
    with assms(4) show ?thesis by simp
  next
    case (eventsource iv' rawE' st1 ext1 out1)
    from eventsource(5) assms(7)
    have eq: "st' = st1" "obj' = obj\<lparr>dynamicObject.external := Some ext1\<rparr>" "out = out1"
      by simp_all
    from eventsource(1,3) assms(5,6) have same: "rawE' = rawE" "iv' = iv" by simp_all
    note b = eventsource(4) [unfolded same d0]
    have f: "document.polling ext1 = Some rp"
      "document.eventsource ext1 =
         Some (case document.eventsource d of Some r \<Rightarrow> r | None \<Rightarrow> allocated st)"
      using eventsourceBranch_fields(2,5) [OF b] assms(2) by (simp_all add: assignScope_fields)
    have u: "document.eventsource d = None \<longrightarrow> (\<forall>b. out1 = Inr b \<longrightarrow> b)"
    proof (intro impI allI)
      fix returned
      assume none: "document.eventsource d = None" and "out1 = Inr returned"
      with b have "eventsourceBranch c st
             (fst (assignScope ed d (dynamicObject.external obj = None)))
             (snd (assignScope ed d (dynamicObject.external obj = None)))
             rawE (externalData.eventname ed) iv = ((st1, ext1), Inr returned)"
        by simp
      then show returned
        by (rule eventsourceBranch_created) (simp add: assignScope_fields none)
    qed
    have fed: "document.eventsource d = None \<or> wellFormed st d \<longrightarrow>
              properties st1
                (case document.eventsource d of Some r \<Rightarrow> r | None \<Rightarrow> allocated st) =
              fst (processCzmlIntervals c
                     (case document.eventsource d of
                        Some r \<Rightarrow> properties st r
                      | None \<Rightarrow> DynamicProperty c CzmlString) rawE iv)"
    proof
      assume "document.eventsource d = None \<or> wellFormed st d"
      then have "\<forall>r. document.eventsource d = Some r \<longrightarrow> r < allocated st"
        unfolding wellFormed_iff by auto
      then show "properties st1
                (case document.eventsource d of Some r \<Rightarrow> r | None \<Rightarrow> allocated st) =
              fst (processCzmlIntervals c
                     (case document.eventsource d of
                        Some r \<Rightarrow> properties st r
                      | None \<Rightarrow> DynamicProperty c CzmlString) rawE iv)"
        using eventsourceBranch_fed [OF b] by (simp add: assignScope_fields)
    qed
    have kept: "wellFormed st d \<longrightarrow> properties st1 rp = properties st rp"
    proof
      assume "wellFormed st d"
      with assms(2) have "rp < allocated st" "document.eventsource d \<noteq> Some rp"
        unfolding wellFormed_iff by auto
      then show "properties st1 rp = properties st rp"
        using eventsourceBranch_store [OF b, of rp] by (simp add: assignScope_fields)
    qed
    from f u fed kept show ?thesis unfolding eq by simp
  next
    case (neither iv')
    with assms(5) show ?thesis by simp
  qed
qed

theorem eventsource_after_polling_witness:
  "wellFormed
     (emptyStore\<lparr>properties := (properties emptyStore)(0 := (CzmlString, [(None, ''url1'')])),
                  allocated := 1\<rparr>)
     (DynamicExternalDocument\<lparr>document.polling := Some 0\<rparr>) \<and>
   processCzmlPacket exampleCollaborators
     (emptyStore\<lparr>properties := (properties emptyStore)(0 := (CzmlString, [(None, ''url1'')])),
                  allocated := 1\<rparr>)
     \<lparr>dynamicObject.external = Some (DynamicExternalDocument\<lparr>document.polling := Some 0\<rparr>)\<rparr>
     \<lparr>packet.external = Some (noExternalData\<lparr>externalData.eventsource := Some ''stream1''\<rparr>)\<rparr>
     = ((emptyStore\<lparr>properties :=
                      (properties emptyStore)
                        (0 := (CzmlString, [(None, ''url1'')]),
                         1 := (CzmlString, [(None, ''stream1'')])),
                    allocated := 2\<rparr>,
         \<lparr>dynamicObject.external =
            Some (DynamicExternalDocument\<lparr>document.polling := Some 0,
                                          document.eventsource := Some 1\<rparr>)\<rparr>),
        Inr True) \<and>
   (\<exists>d'. dynamicObject.external
           \<lparr>dynamicObject.external =
              Some (DynamicExternalDocument\<lparr>document.polling := Some 0,
                                            document.eventsource := Some 1\<rparr>)\<rparr> = Some d' \<and>
         document.polling d' = Some 0 \<and> document.eventsource d' = Some 1)"
proof -
  let ?ed = "noExternalData\<lparr>externalData.eventsource := Some ''stream1''\<rparr>"
  let ?pkt = "\<lparr>packet.external = Some ?ed\<rparr>"
  let ?st = "emptyStore\<lparr>properties := (properties emptyStore)(0 := (CzmlString, [(None, ''url1'')])),
                       allocated := 1\<rparr>"
  let ?d = "DynamicExternalDocument\<lparr>document.polling := Some 0\<rparr>"
  let ?obj = "\<lparr>dynamicObject.external = Some ?d\<rparr>"
  let ?st' = "emptyStore\<lparr>properties :=
                      (properties emptyStore)
                        (0 := (CzmlString, [(None, ''url1'')]),
                         1 := (CzmlString, [(None, ''stream1'')])),
                    allocated := 2\<rparr>"
  let ?obj' = "\<lparr>dynamicObject.external =
            Some (DynamicExternalDocument\<lparr>document.polling := Some 0,
                                          document.eventsource := Some 1\<rparr>)\<rparr>"
  have wf: "wellFormed ?st ?d"
    by (simp add: wellFormed_def propertyRefs_def DynamicExternalDocument_def emptyStore_def)
  have run: "processCzmlPacket exampleCollaborators ?st ?obj ?pkt = ((?st', ?obj'), Inr True)"
    by (simp add: run_example)
  have "dynamicObject.external ?obj = Some ?d" "document.polling ?d = Some 0"
    "packet.external ?pkt = Some ?ed" "externalData.polling ?ed = None"
    "externalData.eventsource ?ed = Some ''stream1''"
    "resolveInterval exampleCollaborators ?ed = Inr None"
    by (simp_all add: noExternalData_def resolveInterval_def)
  from eventsource_after_polling [OF this run]
  have "\<exists>d'. dynamicObject.external ?obj' = Some d' \<and>
         document.polling d' = Some 0 \<and> document.eventsource d' = Some 1"
    by (auto simp: DynamicExternalDocument_def emptyStore_def)
  with wf run show ?thesis by blast
qed

text \<open>
  C5. The \<^verbatim>\<open>refreshInterval\<close> property is written once. When the packet declares
  \<^verbatim>\<open>polling\<close> and \<^verbatim>\<open>refreshInterval\<close>, its interval is absent or well-formed, the document
  has no \<^verbatim>\<open>refreshInterval\<close> and feeding the polling property throws nothing, the call
  creates a property of type number, assigns it to \<^verbatim>\<open>refreshInterval\<close> and feeds it the
  packet's fragments, and returns \<^verbatim>\<open>true\<close> unless that feeding throws. When the document
  has a \<^verbatim>\<open>refreshInterval\<close>, a call with any packet, and the calls for any sequence of
  later packets, leave the field holding the same property, and on a well-formed document
  they leave the property itself as it was: it is not fed.
\<close>

theorem refreshInterval_write_once:
  "(packet.external pkt = Some ed \<and> externalData.polling ed = Some rawP \<and>
    externalData.refreshInterval ed = Some rawR \<and> resolveInterval c ed = Inr iv \<and>
    document.refreshInterval (externalOrNew (dynamicObject.external obj)) = None \<and>
    snd (processCzmlIntervals c
           (case document.polling (externalOrNew (dynamicObject.external obj)) of
              Some q \<Rightarrow> properties st q
            | None \<Rightarrow> DynamicProperty c CzmlString) rawP iv) = None \<and>
    processCzmlPacket c st obj pkt = ((st', obj'), out) \<longrightarrow>
      (\<exists>d'. dynamicObject.external obj' = Some d' \<and>
         document.refreshInterval d' =
           Some (case document.polling (externalOrNew (dynamicObject.external obj)) of
                   Some q \<Rightarrow> allocated st
                 | None \<Rightarrow> Suc (allocated st)) \<and>
         properties st'
           (case document.polling (externalOrNew (dynamicObject.external obj)) of
              Some q \<Rightarrow> allocated st
            | None \<Rightarrow> Suc (allocated st)) =
           fst (processCzmlIntervals c (DynamicProperty c CzmlNumber) rawR iv) \<and>
         out = (case snd (processCzmlIntervals c (DynamicProperty c CzmlNumber) rawR iv) of
                  None \<Rightarrow> Inr True
                | Some e \<Rightarrow> Inl e))) \<and>
   (dynamicObject.external obj = Some d \<and> document.refreshInterval d = Some r \<longrightarrow>
      (\<exists>d'. dynamicObject.external (snd (fst (processCzmlPacket c st obj pkt))) = Some d' \<and>
            document.refreshInterval d' = Some r) \<and>
      (\<exists>d'. dynamicObject.external (snd (processCzmlPackets c st obj pkts)) = Some d' \<and>
            document.refreshInterval d' = Some r) \<and>
      (wellFormed st d \<longrightarrow>
         properties (fst (fst (processCzmlPacket c st obj pkt))) r = properties st r \<and>
         properties (fst (processCzmlPackets c st obj pkts)) r = properties st r))"
proof (intro conjI impI)
  assume h: "packet.external pkt = Some ed \<and> externalData.polling ed = Some rawP \<and>
    externalData.refreshInterval ed = Some rawR \<and> resolveInterval c ed = Inr iv \<and>
    document.refreshInterval (externalOrNew (dynamicObject.external obj)) = None \<and>
    snd (processCzmlIntervals c
           (case document.polling (externalOrNew (dynamicObject.external obj)) of
              Some q \<Rightarrow> properties st q
            | None \<Rightarrow> DynamicProperty c CzmlString) rawP iv) = None \<and>
    processCzmlPacket c st obj pkt = ((st', obj'), out)"
  let ?d0 = "externalOrNew (dynamicObject.external obj)"
  let ?goal = "\<exists>d'. dynamicObject.external obj' = Some d' \<and>
         document.refreshInterval d' =
           Some (case document.polling ?d0 of Some q \<Rightarrow> allocated st | None \<Rightarrow> Suc (allocated st)) \<and>
         properties st'
           (case document.polling ?d0 of Some q \<Rightarrow> allocated st | None \<Rightarrow> Suc (allocated st)) =
           fst (processCzmlIntervals c (DynamicProperty c CzmlNumber) rawR iv) \<and>
         out = (case snd (processCzmlIntervals c (DynamicProperty c CzmlNumber) rawR iv) of
                  None \<Rightarrow> Inr True
                | Some e \<Rightarrow> Inl e)"
  from h have "packet.external pkt = Some ed" by simp
  then have ?goal
  proof (cases rule: processCzmlPacket_cases [where c = c and st = st and obj = obj])
    case (threw e)
    with h show ?thesis by simp
  next
    case (polling iv' rawP' st1 ext1 out1)
    from polling(4) h
    have eq: "st' = st1" "obj' = obj\<lparr>dynamicObject.external := Some ext1\<rparr>" "out = out1"
      by simp_all
    from polling(1,2) h have same: "rawP' = rawP" "iv' = iv" by simp_all
    from h have rawR: "externalData.refreshInterval ed = Some rawR" by simp
    note b = polling(3) [unfolded same rawR]
    from h have pre:
      "document.refreshInterval (fst (assignScope ed ?d0 (dynamicObject.external obj = None))) = None"
      "snd (processCzmlIntervals c
           (case document.polling (fst (assignScope ed ?d0 (dynamicObject.external obj = None))) of
              Some q \<Rightarrow> properties st q
            | None \<Rightarrow> DynamicProperty c CzmlString) rawP iv) = None"
      by (simp_all add: assignScope_fields)
    from pollingBranch_creates_refreshInterval [OF b pre]
    show ?thesis unfolding eq by (simp add: assignScope_fields)
  next
    case (eventsource iv' rawE st1 ext1 out1)
    with h show ?thesis by simp
  next
    case (neither iv')
    with h show ?thesis by simp
  qed
  then show ?goal .
next
  assume h: "dynamicObject.external obj = Some d \<and> document.refreshInterval d = Some r"
  obtain st1 obj1 out1 where run: "processCzmlPacket c st obj pkt = ((st1, obj1), out1)"
    by (metis surj_pair)
  from processCzmlPacket_keeps [OF run] h
  show "\<exists>d'. dynamicObject.external (snd (fst (processCzmlPacket c st obj pkt))) = Some d' \<and>
            document.refreshInterval d' = Some r"
    unfolding run by fastforce
  from processCzmlPackets_keeps [of obj d c st pkts] h
  show "\<exists>d'. dynamicObject.external (snd (processCzmlPackets c st obj pkts)) = Some d' \<and>
            document.refreshInterval d' = Some r"
    by fastforce
  assume wf: "wellFormed st d"
  from processCzmlPacket_keeps [OF run] h wf
  show "properties (fst (fst (processCzmlPacket c st obj pkt))) r = properties st r"
    unfolding run by fastforce
  from processCzmlPackets_keeps [of obj d c st pkts] h wf
  show "properties (fst (processCzmlPackets c st obj pkts)) r = properties st r"
    by fastforce
qed

theorem refreshInterval_write_once_witness:
  "processCzmlPacket exampleCollaborators emptyStore \<lparr>dynamicObject.external = None\<rparr>
     \<lparr>packet.external = Some (noExternalData\<lparr>externalData.polling := Some ''url1'',
                                               externalData.refreshInterval := Some ''30''\<rparr>)\<rparr>
     = ((emptyStore\<lparr>properties :=
                      (properties emptyStore)
                        (0 := (CzmlString, [(None, ''url1'')]),
                         1 := (CzmlNumber, [(None, ''30'')])),
                    allocated := 2\<rparr>,
         \<lparr>dynamicObject.external =
            Some (DynamicExternalDocument\<lparr>document.polling := Some 0,
                                          document.refreshInterval := Some 1\<rparr>)\<rparr>),
        Inr True) \<and>
   wellFormed
     (emptyStore\<lparr>properties :=
                    (properties emptyStore)
                      (0 := (CzmlString, [(None, ''url1'')]),
                       1 := (CzmlNumber, [(None, ''30'')])),
                  allocated := 2\<rparr>)
     (DynamicExternalDocument\<lparr>document.polling := Some 0, document.refreshInterval := Some 1\<rparr>) \<and>
   properties
     (fst (fst (processCzmlPacket exampleCollaborators
        (emptyStore\<lparr>properties :=
                       (properties emptyStore)
                         (0 := (CzmlString, [(None, ''url1'')]),
                          1 := (CzmlNumber, [(None, ''30'')])),
                     allocated := 2\<rparr>)
        \<lparr>dynamicObject.external =
           Some (DynamicExternalDocument\<lparr>document.polling := Some 0,
                                         document.refreshInterval := Some 1\<rparr>)\<rparr>
        \<lparr>packet.external = Some (noExternalData\<lparr>externalData.polling := Some ''url2'',
                                                  externalData.refreshInterval := Some ''60''\<rparr>)\<rparr>)))
     1 = (CzmlNumber, [(None, ''30'')])"
proof -
  let ?ed = "noExternalData\<lparr>externalData.polling := Some ''url1'',
                            externalData.refreshInterval := Some ''30''\<rparr>"
  let ?pkt = "\<lparr>packet.external = Some ?ed\<rparr>"
  let ?obj = "\<lparr>dynamicObject.external = None\<rparr> :: dynamicObject"
  let ?st' = "emptyStore\<lparr>properties :=
                      (properties emptyStore)
                        (0 := (CzmlString, [(None, ''url1'')]),
                         1 := (CzmlNumber, [(None, ''30'')])),
                    allocated := 2\<rparr>"
  let ?d' = "DynamicExternalDocument\<lparr>document.polling := Some 0, document.refreshInterval := Some 1\<rparr>"
  let ?obj' = "\<lparr>dynamicObject.external = Some ?d'\<rparr>"
  let ?pkt2 = "\<lparr>packet.external = Some (noExternalData\<lparr>externalData.polling := Some ''url2'',
                                                  externalData.refreshInterval := Some ''60''\<rparr>)\<rparr>"
  have run: "processCzmlPacket exampleCollaborators emptyStore ?obj ?pkt = ((?st', ?obj'), Inr True)"
    by (simp add: run_example)
  have wf: "wellFormed ?st' ?d'"
    by (simp add: wellFormed_def propertyRefs_def DynamicExternalDocument_def emptyStore_def)
  have created: "\<exists>d'. dynamicObject.external ?obj' = Some d' \<and>
      document.refreshInterval d' = Some 1 \<and>
      properties ?st' 1 = (CzmlNumber, [(None, ''30'')])"
    using refreshInterval_write_once
      [where pkt = ?pkt and ed = ?ed and rawP = "''url1''" and rawR = "''30''"
         and c = exampleCollaborators and iv = None and obj = ?obj and st = emptyStore
         and st' = ?st' and obj' = ?obj' and out = "Inr True"] run
    by (simp add: noExternalData_def resolveInterval_def externalOrNew_def
        DynamicExternalDocument_def exampleCollaborators_def emptyStore_def)
  have "properties (fst (fst (processCzmlPacket exampleCollaborators ?st' ?obj' ?pkt2))) 1
          = properties ?st' 1"
    using refreshInterval_write_once
      [where obj = ?obj' and d = ?d' and r = 1 and st = ?st' and c = exampleCollaborators
         and pkt = ?pkt2] wf
    by simp
  then have "properties (fst (fst (processCzmlPacket exampleCollaborators ?st' ?obj' ?pkt2))) 1
          = (CzmlNumber, [(None, ''30'')])"
    by simp
  with run wf show ?thesis by blast
qed

end
